theory Spec2Isabelle
  imports Main "HOL-Library.Word"
begin

unbundle bit_operations_syntax

section \<open>Encoding utilities (pkg/encoding/encoding.go)\<close>

text \<open>
  Go's \<open>uint16\<close> is \<open>16 word\<close>. A Go shift by a count that reaches the width gives 0,
  which is what \<open>push_bit\<close> and \<open>drop_bit\<close> do on words; the shift count
  \<open>bitcount - 1\<close> is itself a \<open>uint16\<close> and wraps to 65535 when \<open>bitcount\<close> is 0.
\<close>

definition SignExtend :: "16 word \<Rightarrow> 16 word \<Rightarrow> 16 word" where
  "SignExtend v bitcount =
     (if drop_bit (unat (bitcount - 1)) v AND 0x1 = 1
      then v OR push_bit (unat bitcount) 0xFFFF
      else v)"

definition ZeroExtend :: "16 word \<Rightarrow> 16 word \<Rightarrow> 16 word" where
  "ZeroExtend v bitcount =
     (if drop_bit (unat (bitcount - 1)) v AND 0x1 = 1
      then v OR push_bit (unat bitcount) 0x0000
      else v)"

section \<open>The virtual machine (package machine)\<close>

subsection \<open>Constants\<close>

definition FLAG_POS :: "16 word" where "FLAG_POS = push_bit 0 1"
definition FLAG_ZERO :: "16 word" where "FLAG_ZERO = push_bit 1 1"
definition FLAG_NEG :: "16 word" where "FLAG_NEG = push_bit 2 1"

definition MEMSPACE_INT_TABLE :: "16 word" where "MEMSPACE_INT_TABLE = 0x0100"
definition MEMSPACE_SUPERVISOR :: "16 word" where "MEMSPACE_SUPERVISOR = 0x0200"
definition MEMSPACE_USER :: "16 word" where "MEMSPACE_USER = 0x3000"
definition MEMSPACE_DEVICES :: "16 word" where "MEMSPACE_DEVICES = 0xFE00"

definition DEV_KBSR :: "16 word" where "DEV_KBSR = 0xFE00"
definition DEV_KBDR :: "16 word" where "DEV_KBDR = 0xFE02"
definition DEV_DSR :: "16 word" where "DEV_DSR = 0xFE04"
definition DEV_DDR :: "16 word" where "DEV_DDR = 0xFE06"

definition OP_ADD :: "16 word" where "OP_ADD = 0b0001"
definition OP_AND :: "16 word" where "OP_AND = 0b0101"
definition OP_BR :: "16 word" where "OP_BR = 0b0000"
definition OP_JMP :: "16 word" where "OP_JMP = 0b1100"
definition OP_JSR :: "16 word" where "OP_JSR = 0b0100"
definition OP_LD :: "16 word" where "OP_LD = 0b0010"
definition OP_LDI :: "16 word" where "OP_LDI = 0b1010"
definition OP_LDR :: "16 word" where "OP_LDR = 0b0110"
definition OP_LEA :: "16 word" where "OP_LEA = 0b1110"
definition OP_NOT :: "16 word" where "OP_NOT = 0b1001"
definition OP_RTI :: "16 word" where "OP_RTI = 0b1000"
definition OP_ST :: "16 word" where "OP_ST = 0b0011"
definition OP_STI :: "16 word" where "OP_STI = 0b1011"
definition OP_STR :: "16 word" where "OP_STR = 0b0111"
definition OP_TRAP :: "16 word" where "OP_TRAP = 0b1111"
definition OP_RES :: "16 word" where "OP_RES = 0b1101"

lemmas machine_consts =
  FLAG_POS_def FLAG_ZERO_def FLAG_NEG_def
  MEMSPACE_INT_TABLE_def MEMSPACE_SUPERVISOR_def MEMSPACE_USER_def MEMSPACE_DEVICES_def
  DEV_KBSR_def DEV_KBDR_def DEV_DSR_def DEV_DDR_def

lemmas opcode_consts =
  OP_ADD_def OP_AND_def OP_BR_def OP_JMP_def OP_JSR_def OP_LD_def OP_LDI_def OP_LDR_def
  OP_LEA_def OP_NOT_def OP_RTI_def OP_ST_def OP_STI_def OP_STR_def OP_TRAP_def OP_RES_def

subsection \<open>State\<close>

text \<open>
  \<open>Registers [8]uint16\<close> is a total array of eight cells: a function from \<open>3 word\<close>.
  \<open>Memory [1 << 16]uint16\<close> is indexed by a \<open>uint16\<close>, so every index is in range:
  a function from \<open>16 word\<close>.
\<close>

record MachineState =
  Registers :: "3 word \<Rightarrow> 16 word"
  Program :: "16 word"
  Procstat :: "16 word"
  Stack :: "16 word"
  Memory :: "16 word \<Rightarrow> 16 word"

text \<open>
  The keyboard endpoint is a \<open>bufio.Reader\<close>: the bytes it still holds, and whether the
  source behind it fails with an error other than end of input once they are used up.
  The display endpoint is a \<open>bufio.Writer\<close>: its buffer size, the bytes buffered and not
  yet flushed, the bytes handed to the sink, and whether the sink refuses writes.
\<close>

record Keyboard =
  Keys :: "8 word list"
  KeysFail :: bool

record Display =
  BufSize :: nat
  Pending :: "8 word list"
  Output :: "8 word list"
  SinkFail :: bool

record DeviceHandler =
  Keyboard :: "Keyboard option"
  Display :: "Display option"

text \<open>
  A machine is its device handler (a pointer, \<open>None\<close> for nil) and its state. The
  debugger field is nil throughout: its hooks pass control to the interactive prompt,
  which is outside the stepper.
\<close>

record Machine =
  Devices :: "DeviceHandler option"
  State :: MachineState

text \<open>A Go panic is a result of its own: every function that can panic returns a sum.\<close>

datatype panic =
  NilPointerDereference
  | DisplayWriteError
  | KeyboardReadError
  | InvalidPriorityValue

definition set_memory :: "16 word \<Rightarrow> 16 word \<Rightarrow> Machine \<Rightarrow> Machine" where
  "set_memory addr v mc =
     mc\<lparr>State := (State mc)\<lparr>Memory := (Memory (State mc))(addr := v)\<rparr>\<rparr>"

definition set_register :: "3 word \<Rightarrow> 16 word \<Rightarrow> Machine \<Rightarrow> Machine" where
  "set_register r v mc =
     mc\<lparr>State := (State mc)\<lparr>Registers := (Registers (State mc))(r := v)\<rparr>\<rparr>"

definition set_program :: "16 word \<Rightarrow> Machine \<Rightarrow> Machine" where
  "set_program v mc = mc\<lparr>State := (State mc)\<lparr>Program := v\<rparr>\<rparr>"

definition set_procstat :: "16 word \<Rightarrow> Machine \<Rightarrow> Machine" where
  "set_procstat v mc = mc\<lparr>State := (State mc)\<lparr>Procstat := v\<rparr>\<rparr>"

definition set_stack :: "16 word \<Rightarrow> Machine \<Rightarrow> Machine" where
  "set_stack v mc = mc\<lparr>State := (State mc)\<lparr>Stack := v\<rparr>\<rparr>"

definition set_keyboard :: "Keyboard \<Rightarrow> Machine \<Rightarrow> Machine" where
  "set_keyboard kb mc =
     mc\<lparr>Devices := map_option (\<lambda>d. d\<lparr>Keyboard := Some kb\<rparr>) (Devices mc)\<rparr>"

definition set_display :: "Display \<Rightarrow> Machine \<Rightarrow> Machine" where
  "set_display dp mc =
     mc\<lparr>Devices := map_option (\<lambda>d. d\<lparr>Display := Some dp\<rparr>) (Devices mc)\<rparr>"

definition reg :: "Machine \<Rightarrow> 16 word \<Rightarrow> 16 word" where
  "reg mc i = Registers (State mc) (ucast i)"

subsection \<open>Reset\<close>

definition Reset :: "MachineState \<Rightarrow> MachineState" where
  "Reset s =
     s\<lparr>Registers := (\<lambda>_. 0x0000)(6 := MEMSPACE_USER),
       Memory := (\<lambda>_. 0x0000),
       Program := MEMSPACE_SUPERVISOR,
       Procstat := 0x8000,
       Stack := MEMSPACE_DEVICES\<rparr>"

subsection \<open>LoadBin\<close>

text \<open>
  The reader is an octet stream that hands out its bytes two at a time: \<open>Read\<close> into the
  two-byte scratch buffer returns end of file on an empty stream, a short read of one
  byte when one is left, and two bytes otherwise. \<open>LoadBin\<close> returns an error or nil,
  and the machine it has written so far in either case.
\<close>

datatype load_error = ErrorReadingBinary

definition BigEndian_Uint16 :: "8 word \<Rightarrow> 8 word \<Rightarrow> 16 word" where
  "BigEndian_Uint16 b0 b1 = ucast b1 OR push_bit 8 (ucast b0)"

fun LoadBin_loop :: "nat \<Rightarrow> 8 word list \<Rightarrow> Machine \<Rightarrow> load_error option \<times> Machine" where
  "LoadBin_loop index bs mc =
     (if index < 2 ^ 16 - 1
      then (case bs of
              [] \<Rightarrow> (None, mc)
            | [b] \<Rightarrow> (Some ErrorReadingBinary, mc)
            | b0 # b1 # rest \<Rightarrow>
                LoadBin_loop (index + 1) rest
                  (set_memory (of_nat index) (BigEndian_Uint16 b0 b1) mc))
      else (None, mc))"

definition LoadBin :: "8 word list \<Rightarrow> Machine \<Rightarrow> load_error option \<times> Machine" where
  "LoadBin bs mc = LoadBin_loop 0 bs (mc\<lparr>State := Reset (State mc)\<rparr>)"

subsection \<open>The memory gates\<close>

text \<open>
  \<open>read\<close>: the keyboard status register polls the keyboard, the display status register
  asks the display for room, and the display data register reads as 0.
\<close>

definition read_kbsr :: "Machine \<Rightarrow> panic + Machine" where
  "read_kbsr mc =
     (case Devices mc of
        None \<Rightarrow> Inr (set_memory DEV_KBSR 0 mc)
      | Some d \<Rightarrow>
          (case Keyboard d of
             None \<Rightarrow> Inr (set_memory DEV_KBSR 0 mc)
           | Some kb \<Rightarrow>
               (case Keys kb of
                  [] \<Rightarrow> if KeysFail kb then Inl KeyboardReadError
                        else Inr (set_memory DEV_KBSR 0 mc)
                | key # rest \<Rightarrow>
                    Inr (set_memory DEV_KBDR (ucast key)
                          (set_memory DEV_KBSR (push_bit 15 1)
                            (set_keyboard (kb\<lparr>Keys := rest\<rparr>) mc))))))"

definition read_dsr :: "Machine \<Rightarrow> Machine" where
  "read_dsr mc =
     (case Devices mc of
        None \<Rightarrow> set_memory DEV_DSR 0 mc
      | Some d \<Rightarrow>
          (case Display d of
             None \<Rightarrow> set_memory DEV_DSR 0 mc
           | Some dp \<Rightarrow>
               if BufSize dp - length (Pending dp) > 0
               then set_memory DEV_DSR (push_bit 15 1) mc
               else set_memory DEV_DSR 0 mc))"

definition read :: "16 word \<Rightarrow> Machine \<Rightarrow> panic + (16 word \<times> Machine)" where
  "read addr mc =
     (case (if addr = DEV_KBSR then read_kbsr mc
            else if addr = DEV_DSR then Inr (read_dsr mc)
            else Inr mc) of
        Inl p \<Rightarrow> Inl p
      | Inr mc' \<Rightarrow>
          if addr \<noteq> DEV_DDR then Inr (Memory (State mc') addr, mc')
          else Inr (0, mc'))"

text \<open>
  \<open>write\<close> (here \<open>machine_write\<close>, the name being taken in Isabelle): a store to
  the display data register first sends the low byte to the display
  and flushes; \<open>mc.Devices.Display.WriteByte\<close> dereferences both pointers without a nil
  check. The keyboard data register is never stored to.
\<close>

definition write_ddr :: "16 word \<Rightarrow> Machine \<Rightarrow> panic + Machine" where
  "write_ddr v mc =
     (case Devices mc of
        None \<Rightarrow> Inl NilPointerDereference
      | Some d \<Rightarrow>
          (case Display d of
             None \<Rightarrow> Inl NilPointerDereference
           | Some dp \<Rightarrow>
               if SinkFail dp then Inl DisplayWriteError
               else Inr (set_display
                          (dp\<lparr>Output := Output dp @ Pending dp @ [ucast (v AND 0xFF)],
                              Pending := []\<rparr>) mc)))"

definition machine_write :: "16 word \<Rightarrow> 16 word \<Rightarrow> Machine \<Rightarrow> panic + Machine" where
  "machine_write addr v mc =
     (case (if addr = DEV_DDR then write_ddr v mc else Inr mc) of
        Inl p \<Rightarrow> Inl p
      | Inr mc' \<Rightarrow>
          if addr \<noteq> DEV_KBDR then Inr (set_memory addr v mc') else Inr mc')"

subsection \<open>Stack, privilege, priority, exceptions, flags\<close>

definition push :: "16 word \<Rightarrow> Machine \<Rightarrow> panic + Machine" where
  "push v mc =
     (let mc' = set_register 6 (Registers (State mc) 6 - 2) mc
      in machine_write (Registers (State mc') 6) v mc')"

definition pop :: "Machine \<Rightarrow> panic + (16 word \<times> Machine)" where
  "pop mc =
     (case read (Registers (State mc) 6) mc of
        Inl p \<Rightarrow> Inl p
      | Inr (result, mc') \<Rightarrow>
          Inr (result, set_register 6 (Registers (State mc') 6 + 2) mc'))"

definition getPrivilege :: "Machine \<Rightarrow> bool" where
  "getPrivilege mc \<longleftrightarrow> drop_bit 15 (Procstat (State mc)) = 1"

definition setPrivilege :: "bool \<Rightarrow> Machine \<Rightarrow> Machine" where
  "setPrivilege privileged mc =
     (let mc1 = (if privileged \<noteq> getPrivilege mc
                 then set_stack (Registers (State mc) 6)
                        (set_register 6 (Stack (State mc)) mc)
                 else mc)
      in if privileged
         then set_procstat (Procstat (State mc1) OR push_bit 15 0x1) mc1
         else set_procstat (Procstat (State mc1) AND NOT (push_bit 15 0x1)) mc1)"

definition setPriority :: "8 word \<Rightarrow> Machine \<Rightarrow> panic + Machine" where
  "setPriority v mc =
     (if v > 0x7 then Inl InvalidPriorityValue
      else let mc1 = set_procstat (Procstat (State mc) AND NOT (push_bit 8 0x7)) mc
           in Inr (set_procstat (Procstat (State mc1) OR push_bit 8 (ucast (v AND 0x7))) mc1))"

definition getPriority :: "Machine \<Rightarrow> 8 word" where
  "getPriority mc = ucast (drop_bit 8 (Procstat (State mc)) AND 0x7)"

definition raiseException :: "8 word \<Rightarrow> 8 word \<Rightarrow> Machine \<Rightarrow> panic + Machine" where
  "raiseException vector priority mc =
     (case push (Procstat (State mc)) mc of
        Inl p \<Rightarrow> Inl p
      | Inr mc1 \<Rightarrow>
     (case push (Program (State mc1)) mc1 of
        Inl p \<Rightarrow> Inl p
      | Inr mc2 \<Rightarrow>
     (case setPriority priority mc2 of
        Inl p \<Rightarrow> Inl p
      | Inr mc3 \<Rightarrow>
     (case read (MEMSPACE_INT_TABLE OR ucast vector) (setPrivilege True mc3) of
        Inl p \<Rightarrow> Inl p
      | Inr (target, mc4) \<Rightarrow> Inr (set_program target mc4)))))"

definition setFlags :: "16 word \<Rightarrow> Machine \<Rightarrow> Machine" where
  "setFlags v mc =
     (let mc1 = set_procstat (Procstat (State mc) AND NOT 0x7) mc
      in if v = 0 then set_procstat (Procstat (State mc1) OR FLAG_ZERO) mc1
         else if drop_bit 15 v = 1 then set_procstat (Procstat (State mc1) OR FLAG_NEG) mc1
         else set_procstat (Procstat (State mc1) OR FLAG_POS) mc1)"

subsection \<open>Step\<close>

text \<open>
  \<open>Step\<close> in three parts, in the order of the source: the fetch, the \<open>switch\<close> on the
  opcode (\<open>execute\<close>, entered with the program counter already incremented), and the
  keyboard interrupt check that follows the switch.
\<close>

definition load_into :: "16 word \<Rightarrow> panic + (16 word \<times> Machine) \<Rightarrow> panic + Machine" where
  "load_into dest r =
     (case r of
        Inl p \<Rightarrow> Inl p
      | Inr (v, mc) \<Rightarrow>
          (let mc1 = set_register (ucast dest) v mc
           in Inr (setFlags (reg mc1 dest) mc1)))"

definition execute :: "16 word \<Rightarrow> Machine \<Rightarrow> panic + Machine" where
  "execute instruction mc =
     (let opcode = drop_bit 12 instruction in
      if opcode = OP_ADD then
        (let dest = drop_bit 9 instruction AND 0x7;
             src1 = drop_bit 6 instruction AND 0x7;
             mc1 = (if drop_bit 5 instruction AND 0x1 = 1
                    then (let imm5 = SignExtend (instruction AND 0x1F) 5
                          in set_register (ucast dest) (reg mc src1 + imm5) mc)
                    else (let src2 = instruction AND 0x7
                          in set_register (ucast dest) (reg mc src1 + reg mc src2) mc))
         in Inr (setFlags (reg mc1 dest) mc1))
      else if opcode = OP_AND then
        (let dest = drop_bit 9 instruction AND 0x7;
             src1 = drop_bit 6 instruction AND 0x7;
             mc1 = (if drop_bit 5 instruction AND 0x1 = 1
                    then (let imm5 = SignExtend (instruction AND 0x1F) 5
                          in set_register (ucast dest) (reg mc src1 AND imm5) mc)
                    else (let src2 = instruction AND 0x3
                          in set_register (ucast dest) (reg mc src1 AND reg mc src2) mc))
         in Inr (setFlags (reg mc1 dest) mc1))
      else if opcode = OP_BR then
        (let flags = drop_bit 9 instruction AND 0x7
         in if flags = 0 \<or> flags AND (Procstat (State mc) AND 0x7) > 0
            then Inr (set_program
                       (Program (State mc) + SignExtend (instruction AND 0x1FF) 9) mc)
            else Inr mc)
      else if opcode = OP_JMP then
        (let src = drop_bit 6 instruction AND 0x7;
             mc1 = set_program (reg mc src) mc
         in if instruction AND 0x1 = 1
            then (if getPrivilege mc1 then Inr (setPrivilege False mc1)
                  else raiseException 0x00 (getPriority mc1) mc1)
            else Inr mc1)
      else if opcode = OP_JSR then
        (let mc1 = set_register 7 (Program (State mc)) mc
         in if drop_bit 11 instruction AND 0x1 = 1
            then Inr (set_program
                       (Program (State mc1) + SignExtend (instruction AND 0x7FF) 11) mc1)
            else (let src = drop_bit 6 instruction AND 0x7
                  in Inr (set_program (reg mc1 src) mc1)))
      else if opcode = OP_LD then
        (let dest = drop_bit 9 instruction AND 0x7;
             addr = Program (State mc) + SignExtend (instruction AND 0x1FF) 9
         in load_into dest (read addr mc))
      else if opcode = OP_LDI then
        (let dest = drop_bit 9 instruction AND 0x7;
             addr = Program (State mc) + SignExtend (instruction AND 0x1FF) 9
         in load_into dest
              (case read addr mc of
                 Inl p \<Rightarrow> Inl p
               | Inr (inner, mc1) \<Rightarrow> read inner mc1))
      else if opcode = OP_LDR then
        (let dest = drop_bit 9 instruction AND 0x7;
             src = drop_bit 6 instruction AND 0x7;
             addr = reg mc src + SignExtend (instruction AND 0x3F) 6
         in load_into dest (read addr mc))
      else if opcode = OP_LEA then
        (let dest = drop_bit 9 instruction AND 0x7;
             addr = Program (State mc) + SignExtend (instruction AND 0x1FF) 9;
             mc1 = set_register (ucast dest) addr mc
         in Inr (setFlags (reg mc1 dest) mc1))
      else if opcode = OP_NOT then
        (let dest = drop_bit 9 instruction AND 0x7;
             src = drop_bit 6 instruction AND 0x7;
             mc1 = set_register (ucast dest) (NOT (reg mc src)) mc
         in Inr (setFlags (reg mc1 dest) mc1))
      else if opcode = OP_RTI then
        (if getPrivilege mc
         then (case pop (setPrivilege False mc) of
                 Inl p \<Rightarrow> Inl p
               | Inr (pc, mc1) \<Rightarrow>
                   (case pop (set_program pc mc1) of
                      Inl p \<Rightarrow> Inl p
                    | Inr (ps, mc2) \<Rightarrow> Inr (set_procstat ps mc2)))
         else raiseException 0x00 (getPriority mc) mc)
      else if opcode = OP_ST then
        (let src = drop_bit 9 instruction AND 0x7;
             addr = Program (State mc) + SignExtend (instruction AND 0x1FF) 9
         in machine_write addr (reg mc src) mc)
      else if opcode = OP_STI then
        (let src = drop_bit 9 instruction AND 0x7;
             addr = Program (State mc) + SignExtend (instruction AND 0x1FF) 9
         in (case read addr mc of
               Inl p \<Rightarrow> Inl p
             | Inr (target, mc1) \<Rightarrow> machine_write target (reg mc1 src) mc1))
      else if opcode = OP_STR then
        (let src = drop_bit 9 instruction AND 0x7;
             dest = drop_bit 6 instruction AND 0x7;
             addr = reg mc dest + SignExtend (instruction AND 0x3F) 6
         in machine_write addr (reg mc src) mc)
      else if opcode = OP_TRAP then
        (let call = instruction AND 0xFF;
             mc1 = setPrivilege True mc;
             mc2 = set_register 7 (Program (State mc1)) mc1
         in (case read (ZeroExtend call 8) mc2 of
               Inl p \<Rightarrow> Inl p
             | Inr (target, mc3) \<Rightarrow> Inr (set_program target mc3)))
      else raiseException 0x01 (getPriority mc) mc)"

definition keyboard_interrupt :: "Machine \<Rightarrow> panic + Machine" where
  "keyboard_interrupt mc =
     (case Devices mc of
        None \<Rightarrow> Inr mc
      | Some d \<Rightarrow>
          (case Keyboard d of
             None \<Rightarrow> Inr mc
           | Some kb \<Rightarrow>
               if Keys kb \<noteq> [] \<and> getPriority mc < 0x4
               then raiseException 0x80 4 mc
               else Inr mc))"

definition Step :: "Machine \<Rightarrow> panic + Machine" where
  "Step mc =
     (case read (Program (State mc)) mc of
        Inl p \<Rightarrow> Inl p
      | Inr (instruction, mc1) \<Rightarrow>
          (case execute instruction (set_program (Program (State mc1) + 1) mc1) of
             Inl p \<Rightarrow> Inl p
           | Inr mc2 \<Rightarrow> keyboard_interrupt mc2))"

subsection \<open>Predicates and machines used in the statements\<close>

text \<open>The machine right after \<open>Reset\<close>, with no devices attached.\<close>

definition mc_reset :: Machine where
  "mc_reset =
     \<lparr>Devices = None,
      State = Reset \<lparr>Registers = (\<lambda>_. 0), Program = 0, Procstat = 0, Stack = 0,
                     Memory = (\<lambda>_. 0)\<rparr>\<rparr>"

text \<open>
  A user-mode machine at priority 4 about to execute \<open>RTI\<close>, as in the machine test
  "RTI Privilege Violation".
\<close>

definition mc_user_rti :: Machine where
  "mc_user_rti =
     \<lparr>Devices = None,
      State = \<lparr>Registers = (\<lambda>_. 0)(6 := 0xFE00),
               Program = 0x3000, Procstat = 0x0400, Stack = 0x2FFD,
               Memory = (\<lambda>_. 0)(0x0100 := 0x6000, 0x3000 := 0x8000)\<rparr>\<rparr>"

text \<open>A machine about to execute \<open>AND R0, R1, R4\<close> (\<open>0101 000 001 0 00 100\<close>).\<close>

definition mc_and_r4 :: Machine where
  "mc_and_r4 =
     \<lparr>Devices = None,
      State = \<lparr>Registers = (\<lambda>_. 0)(0 := 0x000F, 1 := 0x00FF, 4 := 0x00F0),
               Program = 0x3000, Procstat = 0x8000, Stack = 0xFE00,
               Memory = (\<lambda>_. 0)(0x3000 := 0x5044)\<rparr>\<rparr>"






text \<open>
  The condition bit a value stands for (N when bit 15 is set, Z when it is zero, P
  otherwise), and the opcodes that set the condition bits.
\<close>

definition condition_of :: "16 word \<Rightarrow> 16 word" where
  "condition_of v = (if v = 0 then FLAG_ZERO else if bit v 15 then FLAG_NEG else FLAG_POS)"

definition sets_flags :: "16 word \<Rightarrow> bool" where
  "sets_flags opcode \<longleftrightarrow>
     opcode \<in> {OP_ADD, OP_AND, OP_NOT, OP_LD, OP_LDI, OP_LDR, OP_LEA}"

text \<open>
  A machine about to execute \<open>ADD R0, R1, R2\<close>, and a supervisor-mode machine about to
  execute \<open>RTI\<close> with a saved status word on the user stack whose Z bit is set; then the
  machines that one step makes of them and of \<open>mc_user_rti\<close>.
\<close>

definition mc_add :: Machine where
  "mc_add =
     \<lparr>Devices = None,
      State = \<lparr>Registers = (\<lambda>_. 0)(1 := 0x0001, 2 := 0x8001),
               Program = 0x3000, Procstat = 0x0000, Stack = 0x0000,
               Memory = (\<lambda>_. 0)(0x3000 := 0x1042)\<rparr>\<rparr>"

definition mc_super_rti :: Machine where
  "mc_super_rti =
     \<lparr>Devices = None,
      State = \<lparr>Registers = (\<lambda>_. 0)(6 := 0x2FF9),
               Program = 0x3000, Procstat = 0x8100, Stack = 0xFDFC,
               Memory = (\<lambda>_. 0)(0x3000 := 0x8000, 0xFDFC := 0x6000, 0xFDFE := 0x0402)\<rparr>\<rparr>"

definition mc_add_after :: Machine where
  "mc_add_after = mc_add\<lparr>State := (State mc_add)
         \<lparr>Registers := (Registers (State mc_add))(0 := 0x8002),
          Program := 0x3001, Procstat := 0x0004\<rparr>\<rparr>"

definition mc_user_rti_after :: Machine where
  "mc_user_rti_after = mc_user_rti\<lparr>State := (State mc_user_rti)
           \<lparr>Registers := (Registers (State mc_user_rti))(6 := 0x2FFD),
            Program := 0x6000, Procstat := 0x8400, Stack := 0xFDFC,
            Memory := (Memory (State mc_user_rti))(0xFDFE := 0x0400, 0xFDFC := 0x3001)\<rparr>\<rparr>"

definition mc_super_rti_after :: Machine where
  "mc_super_rti_after = mc_super_rti\<lparr>State := (State mc_super_rti)
           \<lparr>Registers := (Registers (State mc_super_rti))(6 := 0xFE00),
            Program := 0x6000, Procstat := 0x0402, Stack := 0x2FF9\<rparr>\<rparr>"

text \<open>
  Word \<open>i\<close> of an octet stream, big-endian; and an image of 131 072 octets whose only
  non-zero word is the last one.
\<close>

definition stream_word :: "8 word list \<Rightarrow> nat \<Rightarrow> 16 word" where
  "stream_word bs i = BigEndian_Uint16 (bs ! (2 * i)) (bs ! (2 * i + 1))"

definition image_one_at_top :: "8 word list" where
  "image_one_at_top = replicate 131070 0 @ [0, 1]"

section \<open>The assembler (package assembler)\<close>

subsection \<open>Tokens, literal widths, mnemonics, errors\<close>

datatype TokenType = TOKEN_NONE | TOKEN_IDENT | TOKEN_DIRECTIVE | TOKEN_STRING | TOKEN_LITERAL

datatype LiteralType =
  LITERAL_IMM5 | LITERAL_OFFSET6 | LITERAL_TRAPVEC8 | LITERAL_PCOFFSET9 | LITERAL_PCOFFSET11
  | LITERAL_WORD

text \<open>The number each \<open>LiteralType\<close> constant stands for: the width of the field in bits.\<close>

fun bits_of :: "LiteralType \<Rightarrow> nat" where
  "bits_of LITERAL_IMM5 = 5"
| "bits_of LITERAL_OFFSET6 = 6"
| "bits_of LITERAL_TRAPVEC8 = 8"
| "bits_of LITERAL_PCOFFSET9 = 9"
| "bits_of LITERAL_PCOFFSET11 = 11"
| "bits_of LITERAL_WORD = 16"

datatype InstructionType =
  INSTRUCTION_INVALID
  | INSTRUCTION_ADD | INSTRUCTION_AND
  | INSTRUCTION_BR | INSTRUCTION_BRn | INSTRUCTION_BRz | INSTRUCTION_BRp
  | INSTRUCTION_BRnz | INSTRUCTION_BRzp | INSTRUCTION_BRnp | INSTRUCTION_BRnzp
  | INSTRUCTION_JMP | INSTRUCTION_JMPT | INSTRUCTION_JSR | INSTRUCTION_JSRR
  | INSTRUCTION_LD | INSTRUCTION_LDI | INSTRUCTION_LDR | INSTRUCTION_LEA
  | INSTRUCTION_NOT | INSTRUCTION_RET | INSTRUCTION_RTI | INSTRUCTION_RTT
  | INSTRUCTION_ST | INSTRUCTION_STI | INSTRUCTION_STR | INSTRUCTION_TRAP
  | INSTRUCTION_GETC | INSTRUCTION_OUT | INSTRUCTION_PUTS | INSTRUCTION_IN
  | INSTRUCTION_PUTSP | INSTRUCTION_HALT

datatype DirectiveType =
  DIRECTIVE_INVALID | DIRECTIVE_ORIG | DIRECTIVE_FILL | DIRECTIVE_BLKW | DIRECTIVE_STRINGZ
  | DIRECTIVE_END

text \<open>
  Tokens and errors are modelled without their source cursor: the cursor is carried for
  diagnostics only, except for one comparison in the lexer, which \<open>lex_char\<close> keeps.
  \<open>OversizedLiteralError\<close> and \<open>OversizedLabelError\<close> carry the limit and the value.
\<close>

record Token =
  Type :: TokenType
  Value :: string

datatype asm_error =
  InvalidOperandError "TokenType list" TokenType
  | InvalidNumArgumentsError nat nat
  | OversizedLabelError int int
  | InvalidLiteralError
  | InvalidStringError
  | OversizedLiteralError int int
  | InvalidRegisterError
  | UnexpectedCharacterError char
  | OversizedCharacterError
  | RedeclaredLabelError string
  | UnknownLabelError string
  | UnknownIdentifierError string
  | OversizedBinaryError

subsection \<open>Library functions the assembler calls\<close>

text \<open>
  The source text is taken to be ASCII, one byte to each rune. On ASCII
  \<open>strings.EqualFold\<close> compares with the letter case ignored, and \<open>unicode.IsSpace\<close>,
  \<open>unicode.IsDigit\<close>, \<open>unicode.IsLetter\<close> are the predicates below.
\<close>

definition upper :: "char \<Rightarrow> char" where
  "upper c = (let n = of_char c :: nat in if 97 \<le> n \<and> n \<le> 122 then char_of (n - 32) else c)"

definition EqualFold :: "string \<Rightarrow> string \<Rightarrow> bool" where
  "EqualFold s t \<longleftrightarrow> map upper s = map upper t"

definition IsSpace :: "char \<Rightarrow> bool" where
  "IsSpace c \<longleftrightarrow> (let n = of_char c :: nat in (9 \<le> n \<and> n \<le> 13) \<or> n = 32)"

definition IsDigit :: "char \<Rightarrow> bool" where
  "IsDigit c \<longleftrightarrow> (let n = of_char c :: nat in 48 \<le> n \<and> n \<le> 57)"

definition IsLetter :: "char \<Rightarrow> bool" where
  "IsLetter c \<longleftrightarrow>
     (let n = of_char c :: nat in (65 \<le> n \<and> n \<le> 90) \<or> (97 \<le> n \<and> n \<le> 122))"

definition MaxASCII :: nat where "MaxASCII = 127"

text \<open>
  \<open>strconv.ParseUint\<close> and \<open>strconv.ParseInt\<close>, for a bit size below 64 (the assembler asks
  for 16). \<open>None\<close> stands for any error, syntax or range: the callers only test for one.
  With base 0 the base comes from the prefix, and underscores are skipped and checked by
  \<open>underscoreOK\<close> afterwards.
\<close>

definition lower :: "char \<Rightarrow> nat" where
  "lower c = (of_char c :: nat) OR 32"

definition digit_value :: "char \<Rightarrow> nat option" where
  "digit_value c =
     (let n = of_char c :: nat in
      if 48 \<le> n \<and> n \<le> 57 then Some (n - 48)
      else if 97 \<le> lower c \<and> lower c \<le> 122 then Some (lower c - 97 + 10)
      else None)"

fun parse_digits :: "nat \<Rightarrow> bool \<Rightarrow> nat \<Rightarrow> string \<Rightarrow> nat \<Rightarrow> bool \<Rightarrow> (nat \<times> bool) option" where
  "parse_digits base base0 maxVal [] n underscores = Some (n, underscores)"
| "parse_digits base base0 maxVal (c # cs) n underscores =
     (if c = CHR ''_'' \<and> base0 then parse_digits base base0 maxVal cs n True
      else (case digit_value c of
              None \<Rightarrow> None
            | Some d \<Rightarrow>
                if d \<ge> base then None
                else if n * base + d > maxVal then None
                else parse_digits base base0 maxVal cs (n * base + d) underscores))"

text \<open>\<open>saw\<close> is the last character class seen: the start, a digit, an underscore, another.\<close>

datatype saw = SawStart | SawDigit | SawUnderscore | SawOther

fun underscore_scan :: "bool \<Rightarrow> saw \<Rightarrow> string \<Rightarrow> bool" where
  "underscore_scan hex sw [] = (sw \<noteq> SawUnderscore)"
| "underscore_scan hex sw (c # cs) =
     (if IsDigit c \<or> (hex \<and> 97 \<le> lower c \<and> lower c \<le> 102) then underscore_scan hex SawDigit cs
      else if c = CHR ''_''
           then (if sw \<noteq> SawDigit then False else underscore_scan hex SawUnderscore cs)
      else if sw = SawUnderscore then False
      else underscore_scan hex SawOther cs)"

definition underscoreOK :: "string \<Rightarrow> bool" where
  "underscoreOK s0 =
     (let s = (if length s0 \<ge> 1 \<and> (hd s0 = CHR ''-'' \<or> hd s0 = CHR ''+'') then tl s0 else s0)
      in if length s \<ge> 2 \<and> hd s = CHR ''0''
            \<and> (lower (s ! 1) = 98 \<or> lower (s ! 1) = 111 \<or> lower (s ! 1) = 120)
         then underscore_scan (lower (s ! 1) = 120) SawDigit (drop 2 s)
         else underscore_scan False SawStart s)"

definition ParseUint :: "string \<Rightarrow> nat \<Rightarrow> nat \<Rightarrow> nat option" where
  "ParseUint s base bitSize =
     (if s = [] then None
      else
        (let base0 = (base = 0);
             prefixed =
               (if \<not> base0 then (base, s)
                else if hd s = CHR ''0''
                     then (if length s \<ge> 3 \<and> lower (s ! 1) = 98 then (2, drop 2 s)
                           else if length s \<ge> 3 \<and> lower (s ! 1) = 111 then (8, drop 2 s)
                           else if length s \<ge> 3 \<and> lower (s ! 1) = 120 then (16, drop 2 s)
                           else (8, drop 1 s))
                     else (10, s))
         in (case parse_digits (fst prefixed) base0 (2 ^ bitSize - 1) (snd prefixed) 0 False of
               None \<Rightarrow> None
             | Some (n, underscores) \<Rightarrow>
                 if underscores \<and> \<not> underscoreOK s then None else Some n)))"

definition ParseInt :: "string \<Rightarrow> nat \<Rightarrow> nat \<Rightarrow> int option" where
  "ParseInt s0 base bitSize =
     (if s0 = [] then None
      else
        (let neg = (hd s0 = CHR ''-'');
             s = (if hd s0 = CHR ''+'' \<or> hd s0 = CHR ''-'' then tl s0 else s0)
         in (case ParseUint s base bitSize of
               None \<Rightarrow> None
             | Some un \<Rightarrow>
                 if \<not> neg \<and> un \<ge> 2 ^ (bitSize - 1) then None
                 else if neg \<and> un > 2 ^ (bitSize - 1) then None
                 else Some (if neg then - int un else int un))))"

subsection \<open>Decoding literals (pkg/encoding and parseLiteral)\<close>

text \<open>\<open>strings.IndexAny(s, "xX")\<close>: the index of the first \<open>x\<close> or \<open>X\<close>, if there is one.\<close>

fun IndexAny_xX :: "string \<Rightarrow> nat option" where
  "IndexAny_xX [] = None"
| "IndexAny_xX (c # cs) =
     (if c = CHR ''x'' \<or> c = CHR ''X'' then Some 0 else map_option Suc (IndexAny_xX cs))"

definition DecodeHex :: "string \<Rightarrow> 16 word option" where
  "DecodeHex s =
     (case IndexAny_xX s of
        Some 0 \<Rightarrow> map_option of_nat (ParseUint (CHR ''0'' # s) 0 16)
      | Some (Suc 0) \<Rightarrow> map_option of_nat (ParseUint s 0 16)
      | _ \<Rightarrow> None)"

definition DecodeInt :: "string \<Rightarrow> int option" where
  "DecodeInt s =
     ParseInt (if s \<noteq> [] \<and> hd s = CHR ''#'' then tl s else s) 10 16"

text \<open>
  \<open>parseLiteral\<close>. The hexadecimal branch works on \<open>uint16\<close>, the decimal branch on
  \<open>int16\<close>; no operation of the decimal branch can overflow for a width below 16, so
  its values are integers, with \<open>AND\<close> on integers being two's complement as in Go. In
  \<open>(result&(1<<bits) - 1) != 0\<close> Go's \<open>&\<close> binds tighter than \<open>-\<close>.
\<close>

definition parseLiteral :: "Token \<Rightarrow> LiteralType \<Rightarrow> asm_error + 16 word" where
  "parseLiteral token bits =
     (if IndexAny_xX (Value token) \<noteq> None
      then (case DecodeHex (Value token) of
              None \<Rightarrow> Inl InvalidLiteralError
            | Some result \<Rightarrow>
                if bits_of bits < 16
                then (let limit = push_bit (bits_of bits) (1 :: 16 word)
                      in if result \<ge> limit
                         then Inl (OversizedLiteralError (uint limit) (uint result))
                         else if result AND limit \<noteq> 0
                         then Inr (result OR (push_bit (bits_of bits) 1 - 1))
                         else Inr result)
                else Inr result)
      else (case DecodeInt (Value token) of
              None \<Rightarrow> Inl InvalidLiteralError
            | Some result \<Rightarrow>
                if bits_of bits < 16
                then (let limit = push_bit (bits_of bits) (1 :: int) - 1
                      in if result < - limit \<or> result \<ge> limit
                         then Inl (OversizedLiteralError limit result)
                         else if (result AND push_bit (bits_of bits) 1) - 1 \<noteq> 0
                         then Inr (word_of_int (result AND (push_bit (bits_of bits) 1 - 1)))
                         else Inr (word_of_int result))
                else Inr (word_of_int result)))"

definition parseRegister :: "Token \<Rightarrow> 16 word \<times> bool" where
  "parseRegister token =
     (let ident = Value token in
      if EqualFold ident ''R0'' then (0, True)
      else if EqualFold ident ''R1'' then (1, True)
      else if EqualFold ident ''R2'' then (2, True)
      else if EqualFold ident ''R3'' then (3, True)
      else if EqualFold ident ''R4'' then (4, True)
      else if EqualFold ident ''R5'' then (5, True)
      else if EqualFold ident ''R6'' then (6, True)
      else if EqualFold ident ''R7'' then (7, True)
      else (0, False))"

definition parseDirective :: "string \<Rightarrow> DirectiveType" where
  "parseDirective ident =
     (if EqualFold ident ''.ORIG'' then DIRECTIVE_ORIG
      else if EqualFold ident ''.FILL'' then DIRECTIVE_FILL
      else if EqualFold ident ''.BLKW'' then DIRECTIVE_BLKW
      else if EqualFold ident ''.STRINGZ'' then DIRECTIVE_STRINGZ
      else if EqualFold ident ''.END'' then DIRECTIVE_END
      else DIRECTIVE_INVALID)"

definition parseInstruction :: "string \<Rightarrow> InstructionType" where
  "parseInstruction ident =
     (if EqualFold ident ''ADD'' then INSTRUCTION_ADD
      else if EqualFold ident ''AND'' then INSTRUCTION_AND
      else if EqualFold ident ''BR'' then INSTRUCTION_BR
      else if EqualFold ident ''BRn'' then INSTRUCTION_BRn
      else if EqualFold ident ''BRz'' then INSTRUCTION_BRz
      else if EqualFold ident ''BRp'' then INSTRUCTION_BRp
      else if EqualFold ident ''BRnz'' then INSTRUCTION_BRnz
      else if EqualFold ident ''BRzp'' then INSTRUCTION_BRzp
      else if EqualFold ident ''BRnp'' then INSTRUCTION_BRnp
      else if EqualFold ident ''BRnzp'' then INSTRUCTION_BRnzp
      else if EqualFold ident ''JMP'' then INSTRUCTION_JMP
      else if EqualFold ident ''JMPT'' then INSTRUCTION_JMPT
      else if EqualFold ident ''JSR'' then INSTRUCTION_JSR
      else if EqualFold ident ''JSRR'' then INSTRUCTION_JSRR
      else if EqualFold ident ''LD'' then INSTRUCTION_LD
      else if EqualFold ident ''LDI'' then INSTRUCTION_LDI
      else if EqualFold ident ''LDR'' then INSTRUCTION_LDR
      else if EqualFold ident ''LEA'' then INSTRUCTION_LEA
      else if EqualFold ident ''NOT'' then INSTRUCTION_NOT
      else if EqualFold ident ''RET'' then INSTRUCTION_RET
      else if EqualFold ident ''RTI'' then INSTRUCTION_RTI
      else if EqualFold ident ''RTT'' then INSTRUCTION_RTT
      else if EqualFold ident ''ST'' then INSTRUCTION_ST
      else if EqualFold ident ''STI'' then INSTRUCTION_STI
      else if EqualFold ident ''STR'' then INSTRUCTION_STR
      else if EqualFold ident ''TRAP'' then INSTRUCTION_TRAP
      else if EqualFold ident ''GETC'' then INSTRUCTION_GETC
      else if EqualFold ident ''OUT'' then INSTRUCTION_OUT
      else if EqualFold ident ''PUTS'' then INSTRUCTION_PUTS
      else if EqualFold ident ''IN'' then INSTRUCTION_IN
      else if EqualFold ident ''PUTSP'' then INSTRUCTION_PUTSP
      else if EqualFold ident ''HALT'' then INSTRUCTION_HALT
      else INSTRUCTION_INVALID)"

subsection \<open>The lexer: the inner loop of AssembleLC3Source\<close>

text \<open>
  The state the character loop works on: the type of the token being read, the string
  builder, the tokens and the errors of the line so far. \<open>lex_char\<close> is one iteration,
  for a character and whether it is the last of the line (\<open>cursor.Column == len(line)\<close>);
  it returns the new state and whether the loop goes on (\<open>False\<close> for \<open>break\<close>).
  \<open>tokenStart == cursor.Column\<close> holds exactly when no token was open on entry.
\<close>

record lexer =
  tokenType :: TokenType
  builder :: string
  tokens :: "Token list"
  lexErrs :: "asm_error list"

definition lex_switch :: "char \<Rightarrow> TokenType \<Rightarrow> TokenType \<times> bool \<times> bool \<times> asm_error list" where
  "lex_switch c tt =
     (if c = CHR '';'' then
        (if tt = TOKEN_NONE then (tt, False, True, [])
         else if tt \<noteq> TOKEN_STRING then (tt, True, True, [])
         else (tt, False, False, []))
      else if c = CHR ''.'' then
        (if tt = TOKEN_NONE then (TOKEN_DIRECTIVE, False, False, [])
         else if tt \<noteq> TOKEN_STRING then (tt, False, False, [UnexpectedCharacterError c])
         else (tt, False, False, []))
      else if c = CHR '','' then
        (if tt \<noteq> TOKEN_STRING then (tt, True, False, []) else (tt, False, False, []))
      else if c = CHR ''x'' \<or> c = CHR ''X'' then
        (if tt = TOKEN_NONE then (TOKEN_LITERAL, False, False, []) else (tt, False, False, []))
      else if c = CHR ''#'' then
        (if tt = TOKEN_NONE then (TOKEN_LITERAL, False, False, [])
         else if tt \<noteq> TOKEN_STRING then (tt, False, False, [UnexpectedCharacterError c])
         else (tt, False, False, []))
      else if c = CHR 0x22 then
        (if tt = TOKEN_NONE then (TOKEN_STRING, False, False, [])
         else if tt = TOKEN_STRING then (tt, True, False, [])
         else (tt, False, False, [UnexpectedCharacterError c]))
      else if IsDigit c then
        (if tt = TOKEN_NONE then (TOKEN_LITERAL, False, False, []) else (tt, False, False, []))
      else if c = CHR ''-'' then
        (if tt \<noteq> TOKEN_LITERAL then (tt, False, False, [UnexpectedCharacterError c])
         else (tt, False, False, []))
      else if c = CHR ''_'' then
        (if tt = TOKEN_NONE then (TOKEN_IDENT, False, False, [])
         else if tt \<noteq> TOKEN_IDENT \<and> tt \<noteq> TOKEN_STRING
         then (tt, False, False, [UnexpectedCharacterError c])
         else (tt, False, False, []))
      else if IsLetter c then
        (if tt = TOKEN_NONE then TOKEN_IDENT else tt, False, False,
         if of_char c > MaxASCII then [OversizedCharacterError] else [])
      else
        (tt, False, False,
         (if of_char c > MaxASCII then [OversizedCharacterError] else [])
         @ (if tt \<noteq> TOKEN_STRING then [UnexpectedCharacterError c] else [])))"

definition lex_char :: "char \<Rightarrow> bool \<Rightarrow> lexer \<Rightarrow> lexer \<times> bool" where
  "lex_char c is_last lx =
     (if IsSpace c \<and> tokenType lx = TOKEN_NONE then (lx, True)
      else
        (let fresh = (tokenType lx = TOKEN_NONE);
             sw = (if IsSpace c then (tokenType lx, tokenType lx \<noteq> TOKEN_STRING, False, [])
                   else lex_switch c (tokenType lx));
             tt = fst sw;
             flush0 = fst (snd sw);
             skip = fst (snd (snd sw));
             errs1 = lexErrs lx @ snd (snd (snd sw));
             errs2 = (if is_last
                      then (if tt = TOKEN_STRING
                            then (if c \<noteq> CHR 0x22 \<or> fresh then errs1 @ [InvalidStringError]
                                  else errs1)
                            else (if c = CHR '','' then errs1 @ [UnexpectedCharacterError c]
                                  else errs1))
                      else errs1);
             flush = (is_last \<or> flush0);
             b1 = (if is_last then builder lx @ [c]
                   else if flush0 \<and> tt = TOKEN_STRING \<and> c = CHR 0x22 then builder lx @ [c]
                   else builder lx)
         in if flush
            then (lx\<lparr>tokenType := TOKEN_NONE,
                     builder := (if b1 \<noteq> [] then [] else b1),
                     tokens := (if b1 \<noteq> [] then tokens lx @ [\<lparr>Type = tt, Value = b1\<rparr>]
                                else tokens lx),
                     lexErrs := errs2\<rparr>,
                  \<not> skip)
            else (lx\<lparr>tokenType := tt,
                     builder := (if \<not> skip then b1 @ [c] else b1),
                     lexErrs := errs2\<rparr>,
                  \<not> skip)))"

fun lex_chars :: "string \<Rightarrow> lexer \<Rightarrow> lexer" where
  "lex_chars [] lx = lx"
| "lex_chars (c # cs) lx =
     (case lex_char c (cs = []) lx of
        (lx', go_on) \<Rightarrow> if go_on then lex_chars cs lx' else lx')"

text \<open>
  A line starts with no token open, no tokens and no errors of its own; the builder is
  declared outside the line loop and is carried over.
\<close>

definition lex_line :: "string \<Rightarrow> string \<Rightarrow> lexer" where
  "lex_line b line =
     lex_chars line \<lparr>tokenType = TOKEN_NONE, builder = b, tokens = [], lexErrs = []\<rparr>"

subsection \<open>The encoder: the body of the line loop\<close>

record LabelRef =
  Label :: string
  Addr :: "16 word"
  Size :: LiteralType

record FillRef =
  FillLabel :: string
  FillAddr :: "16 word"

text \<open>
  The variables of \<open>AssembleLC3Source\<close> that live across lines. \<open>program\<close> is a
  \<open>uint32\<close>; \<open>result\<close> is a slice of \<open>1 << 16\<close> words, and an index past its end is a
  run-time panic. The symbol table argument is nil.
\<close>

record assembly =
  labels :: "string \<rightharpoonup> 16 word"
  labelRefs :: "LabelRef list"
  fillRefs :: "FillRef list"
  program :: "32 word"
  result :: "16 word list"
  errs :: "asm_error list"

datatype asm_panic = IndexOutOfRange

definition add_err :: "asm_error \<Rightarrow> assembly \<Rightarrow> assembly" where
  "add_err e st = st\<lparr>errs := errs st @ [e]\<rparr>"

definition add_errs :: "asm_error list \<Rightarrow> assembly \<Rightarrow> assembly" where
  "add_errs es st = st\<lparr>errs := errs st @ es\<rparr>"

text \<open>\<open>result[program] = v\<close>.\<close>

definition store_word :: "16 word \<Rightarrow> assembly \<Rightarrow> asm_panic + assembly" where
  "store_word v st =
     (if unat (program st) < length (result st)
      then Inr (st\<lparr>result := (result st)[unat (program st) := v]\<rparr>)
      else Inl IndexOutOfRange)"

text \<open>\<open>literal, err := parseLiteral(...); if err != nil { errs = append(errs, err) }\<close>.\<close>

definition literal_of :: "Token \<Rightarrow> LiteralType \<Rightarrow> assembly \<Rightarrow> 16 word \<times> assembly" where
  "literal_of token bits st =
     (case parseLiteral token bits of
        Inl e \<Rightarrow> (0, add_err e st)
      | Inr v \<Rightarrow> (v, st))"

text \<open>
  The body of the loop \<open>for i := 0; i < 2; i++\<close> that ADD, AND, LDR, STR and NOT share:
  a register operand shifted into \<open>scratch\<close>.
\<close>

definition register_operand :: "Token \<Rightarrow> 16 word \<times> assembly \<Rightarrow> 16 word \<times> assembly" where
  "register_operand operand acc =
     (case acc of (scratch, st) \<Rightarrow>
        if Type operand \<noteq> TOKEN_IDENT
        then (scratch, add_err (InvalidOperandError [TOKEN_IDENT] (Type operand)) st)
        else (case parseRegister operand of (r, ok) \<Rightarrow>
                (push_bit 3 scratch OR (r AND 0x7),
                 if ok then st else add_err InvalidRegisterError st)))"

definition add_labelRef :: "Token \<Rightarrow> LiteralType \<Rightarrow> assembly \<Rightarrow> assembly" where
  "add_labelRef operand sz st =
     st\<lparr>labelRefs := labelRefs st
           @ [\<lparr>Label = Value operand, Addr = ucast (program st), Size = sz\<rparr>]\<rparr>"

definition branch_flags :: "InstructionType \<Rightarrow> 16 word" where
  "branch_flags instruction =
     (if instruction = INSTRUCTION_BRn then 0x4
      else if instruction = INSTRUCTION_BRz then 0x2
      else if instruction = INSTRUCTION_BRp then 0x1
      else if instruction = INSTRUCTION_BRnz then 0x4 OR 0x2
      else if instruction = INSTRUCTION_BRzp then 0x2 OR 0x1
      else if instruction = INSTRUCTION_BRnp then 0x4 OR 0x1
      else if instruction = INSTRUCTION_BRnzp then 0x4 OR 0x2 OR 0x1
      else 0)"

definition trap_vector :: "InstructionType \<Rightarrow> 16 word" where
  "trap_vector instruction =
     (if instruction = INSTRUCTION_GETC then 0x20
      else if instruction = INSTRUCTION_OUT then 0x21
      else if instruction = INSTRUCTION_PUTS then 0x22
      else if instruction = INSTRUCTION_IN then 0x23
      else if instruction = INSTRUCTION_PUTSP then 0x24
      else 0x25)"

text \<open>
  \<open>switch instruction\<close>: the word in \<open>scratch\<close> when the switch is left (also by a
  \<open>break\<close> half-way), and the errors and label references added on the way.
\<close>

definition encode_instruction ::
  "InstructionType \<Rightarrow> Token list \<Rightarrow> assembly \<Rightarrow> 16 word \<times> assembly" where
  "encode_instruction instruction operands st =
     (let count = length operands in
      if instruction = INSTRUCTION_ADD \<or> instruction = INSTRUCTION_AND then
        (if count \<noteq> 3 then (0, add_err (InvalidNumArgumentsError 3 count) st)
         else
           (let acc = register_operand (operands ! 1)
                        (register_operand (operands ! 0)
                          (if instruction = INSTRUCTION_ADD then 0b0001 else 0b0101, st));
                scratch = fst acc; st1 = snd acc
            in if Type (operands ! 2) = TOKEN_IDENT
               then (case parseRegister (operands ! 2) of (r, ok) \<Rightarrow>
                       (push_bit 6 scratch OR (r AND 0x7),
                        if ok then st1 else add_err InvalidRegisterError st1))
               else if Type (operands ! 2) = TOKEN_LITERAL
               then (case literal_of (operands ! 2) LITERAL_IMM5 st1 of (literal, st2) \<Rightarrow>
                       (push_bit 5 (push_bit 1 scratch OR 0x1) OR (literal AND 0x1F), st2))
               else (scratch,
                     add_err (InvalidOperandError [TOKEN_LITERAL, TOKEN_IDENT]
                                (Type (operands ! 2))) st1)))
      else if instruction \<in> {INSTRUCTION_BR, INSTRUCTION_BRn, INSTRUCTION_BRz, INSTRUCTION_BRp,
                              INSTRUCTION_BRnz, INSTRUCTION_BRzp, INSTRUCTION_BRnp,
                              INSTRUCTION_BRnzp} then
        (if count \<noteq> 1 then (0, add_err (InvalidNumArgumentsError 1 count) st)
         else
           (let scratch = branch_flags instruction
            in if Type (operands ! 0) \<noteq> TOKEN_IDENT
               then (scratch,
                     add_err (InvalidOperandError [TOKEN_IDENT] (Type (operands ! 0))) st)
               else (push_bit 9 scratch, add_labelRef (operands ! 0) LITERAL_PCOFFSET9 st)))
      else if instruction = INSTRUCTION_JMP \<or> instruction = INSTRUCTION_JMPT then
        (if count \<noteq> 1 then (0, add_err (InvalidNumArgumentsError 1 count) st)
         else if Type (operands ! 0) \<noteq> TOKEN_IDENT
         then (0, add_err (InvalidOperandError [TOKEN_IDENT] (Type (operands ! 0))) st)
         else (case parseRegister (operands ! 0) of (r, ok) \<Rightarrow>
                 (let scratch = push_bit 6 (push_bit 6 0b1100 OR (r AND 0x7))
                  in (if instruction = INSTRUCTION_JMPT then scratch OR 0x1 else scratch,
                      if ok then st else add_err InvalidRegisterError st))))
      else if instruction = INSTRUCTION_RET then
        (0b1100000111000000,
         if count \<noteq> 0 then add_err (InvalidNumArgumentsError 0 count) st else st)
      else if instruction = INSTRUCTION_RTT then
        (0b1100000111000001,
         if count \<noteq> 0 then add_err (InvalidNumArgumentsError 0 count) st else st)
      else if instruction = INSTRUCTION_JSR then
        (if count \<noteq> 1 then (0, add_err (InvalidNumArgumentsError 1 count) st)
         else if Type (operands ! 0) \<noteq> TOKEN_IDENT
         then (0, add_err (InvalidOperandError [TOKEN_IDENT] (Type (operands ! 0))) st)
         else (push_bit 11 (push_bit 1 0b0100 OR 0x1),
               add_labelRef (operands ! 0) LITERAL_PCOFFSET11 st))
      else if instruction = INSTRUCTION_JSRR then
        (if count \<noteq> 1 then (0, add_err (InvalidNumArgumentsError 1 count) st)
         else if Type (operands ! 0) \<noteq> TOKEN_IDENT
         then (0, add_err (InvalidOperandError [TOKEN_LITERAL, TOKEN_IDENT]
                             (Type (operands ! 0))) st)
         else (case parseRegister (operands ! 0) of (r, ok) \<Rightarrow>
                 (push_bit 6 (push_bit 6 0b0100 OR (r AND 0x7)),
                  if ok then st else add_err InvalidRegisterError st)))
      else if instruction \<in> {INSTRUCTION_LD, INSTRUCTION_LDI, INSTRUCTION_LEA, INSTRUCTION_ST,
                              INSTRUCTION_STI} then
        (if count \<noteq> 2 then (0, add_err (InvalidNumArgumentsError 2 count) st)
         else
           (let opcode = (if instruction = INSTRUCTION_LD then 0b0010
                          else if instruction = INSTRUCTION_LDI then 0b1010
                          else if instruction = INSTRUCTION_LEA then 0b1110
                          else if instruction = INSTRUCTION_ST then 0b0011
                          else 0b1011);
                acc = (if Type (operands ! 0) \<noteq> TOKEN_IDENT
                       then (opcode,
                             add_err (InvalidOperandError [TOKEN_IDENT] (Type (operands ! 0))) st)
                       else (case parseRegister (operands ! 0) of (r, ok) \<Rightarrow>
                               if ok then (push_bit 3 opcode OR (r AND 0x7), st)
                               else (opcode, add_err InvalidRegisterError st)));
                scratch = fst acc; st1 = snd acc
            in if Type (operands ! 1) \<noteq> TOKEN_IDENT
               then (scratch,
                     add_err (InvalidOperandError [TOKEN_IDENT] (Type (operands ! 1))) st1)
               else (push_bit 9 scratch, add_labelRef (operands ! 1) LITERAL_PCOFFSET9 st1)))
      else if instruction = INSTRUCTION_LDR \<or> instruction = INSTRUCTION_STR then
        (if count \<noteq> 3 then (0, add_err (InvalidNumArgumentsError 3 count) st)
         else
           (let acc = register_operand (operands ! 1)
                        (register_operand (operands ! 0)
                          (if instruction = INSTRUCTION_LDR then 0b0110 else 0b0111, st));
                scratch = fst acc; st1 = snd acc
            in if Type (operands ! 2) \<noteq> TOKEN_LITERAL
               then (scratch,
                     add_err (InvalidOperandError [TOKEN_LITERAL] (Type (operands ! 2))) st1)
               else (case literal_of (operands ! 2) LITERAL_OFFSET6 st1 of (literal, st2) \<Rightarrow>
                       (push_bit 6 scratch OR (literal AND 0x3F), st2))))
      else if instruction = INSTRUCTION_NOT then
        (if count \<noteq> 2 then (0, add_err (InvalidNumArgumentsError 2 count) st)
         else
           (let acc = register_operand (operands ! 1)
                        (register_operand (operands ! 0) (0b1001, st))
            in (push_bit 6 (fst acc) OR 0x3F, snd acc)))
      else if instruction = INSTRUCTION_RTI then
        (if count \<noteq> 0 then (0, add_err (InvalidNumArgumentsError 0 count) st)
         else (0b1000000000000000, st))
      else if instruction = INSTRUCTION_TRAP then
        (if count \<noteq> 1 then (0, add_err (InvalidNumArgumentsError 1 count) st)
         else if Type (operands ! 0) \<noteq> TOKEN_LITERAL
         then (0, add_err (InvalidOperandError [TOKEN_LITERAL] (Type (operands ! 0))) st)
         else (case literal_of (operands ! 0) LITERAL_TRAPVEC8 st of (trap, st1) \<Rightarrow>
                 (push_bit 12 0b1111 OR (trap AND 0xFF),
                  if trap > 0xFF then add_err (OversizedLiteralError 0xFF (uint trap)) st1
                  else st1)))
      else if instruction \<in> {INSTRUCTION_GETC, INSTRUCTION_OUT, INSTRUCTION_PUTS,
                              INSTRUCTION_IN, INSTRUCTION_PUTSP, INSTRUCTION_HALT} then
        (push_bit 12 0b1111 OR (trap_vector instruction AND 0xFF),
         if count \<noteq> 0 then add_err (InvalidNumArgumentsError 0 count) st else st)
      else (0, st))"

text \<open>
  \<open>.STRINGZ\<close> writes the characters of the unquoted string and a terminating 0, one
  word at a time, moving \<open>program\<close> after each.
\<close>

fun store_string :: "16 word list \<Rightarrow> assembly \<Rightarrow> asm_panic + assembly" where
  "store_string [] st =
     (case store_word 0 st of
        Inl p \<Rightarrow> Inl p
      | Inr st1 \<Rightarrow> Inr (st1\<lparr>program := program st1 + 1\<rparr>))"
| "store_string (c # cs) st =
     (case store_word c st of
        Inl p \<Rightarrow> Inl p
      | Inr st1 \<Rightarrow> store_string cs (st1\<lparr>program := program st1 + 1\<rparr>))"

text \<open>
  \<open>switch directive\<close>. \<open>strconv.Unquote\<close>, followed by the conversion of each rune of its
  result to \<open>uint16\<close>, is the parameter \<open>unquote\<close> (\<open>None\<close> when it returns an error, and
  then the string is empty).
\<close>

definition assemble_directive ::
  "(string \<Rightarrow> 16 word list option) \<Rightarrow> DirectiveType \<Rightarrow> Token list \<Rightarrow> assembly
     \<Rightarrow> asm_panic + assembly" where
  "assemble_directive unquote directive operands st =
     (let count = length operands in
      if directive = DIRECTIVE_FILL then
        (if count \<noteq> 1 then Inr (add_err (InvalidNumArgumentsError 1 count) st)
         else
           (case (if Type (operands ! 0) = TOKEN_LITERAL
                  then (case literal_of (operands ! 0) LITERAL_WORD st of (literal, st1) \<Rightarrow>
                          store_word literal st1)
                  else if Type (operands ! 0) = TOKEN_IDENT
                  then (case labels st (Value (operands ! 0)) of
                          Some addr \<Rightarrow> store_word addr st
                        | None \<Rightarrow>
                            Inr (st\<lparr>fillRefs := fillRefs st
                                      @ [\<lparr>FillLabel = Value (operands ! 0),
                                          FillAddr = ucast (program st)\<rparr>]\<rparr>))
                  else Inr (add_err (InvalidOperandError [TOKEN_LITERAL, TOKEN_IDENT]
                                       (Type (operands ! 0))) st)) of
              Inl p \<Rightarrow> Inl p
            | Inr st1 \<Rightarrow> Inr (st1\<lparr>program := program st1 + 1\<rparr>)))
      else if directive = DIRECTIVE_BLKW then
        (if count \<noteq> 1 then Inr (add_err (InvalidNumArgumentsError 1 count) st)
         else if Type (operands ! 0) \<noteq> TOKEN_LITERAL
         then Inr (add_err (InvalidOperandError [TOKEN_LITERAL] (Type (operands ! 0))) st)
         else (case literal_of (operands ! 0) LITERAL_WORD st of (literal, st1) \<Rightarrow>
                 Inr (st1\<lparr>program := program st1 + ucast literal\<rparr>)))
      else if directive = DIRECTIVE_STRINGZ then
        (if count \<noteq> 1 then Inr (add_err (InvalidNumArgumentsError 1 count) st)
         else if Type (operands ! 0) \<noteq> TOKEN_STRING
         then Inr (add_err (InvalidOperandError [TOKEN_STRING] (Type (operands ! 0))) st)
         else (case unquote (Value (operands ! 0)) of
                 None \<Rightarrow> store_string [] (add_err InvalidStringError st)
               | Some s \<Rightarrow> store_string s st))
      else if directive = DIRECTIVE_ORIG then
        (if count \<noteq> 1 then Inr (add_err (InvalidNumArgumentsError 1 count) st)
         else if Type (operands ! 0) \<noteq> TOKEN_LITERAL
         then Inr (add_err (InvalidOperandError [TOKEN_LITERAL] (Type (operands ! 0))) st)
         else (case literal_of (operands ! 0) LITERAL_WORD st of (literal, st1) \<Rightarrow>
                 Inr (st1\<lparr>program := ucast literal\<rparr>)))
      else Inr st)"

text \<open>
  How the body of the line loop is left: on to the next line, out of the loop by
  \<open>break\<close> (\<open>.END\<close>), or out of the function by \<open>return\<close> (\<open>OversizedBinaryError\<close>).
\<close>

datatype control = NextLine | BreakLoop | ReturnNow

text \<open>
  The statement of a line: its keyword as an instruction or a directive, whether a
  keyword was found, and its operands, with the label declared on the way.
\<close>

definition keyword_of :: "Token list \<Rightarrow> InstructionType \<times> DirectiveType \<times> bool \<times> Token list" where
  "keyword_of ts =
     (if parseInstruction (Value (ts ! 0)) \<noteq> INSTRUCTION_INVALID
      then (parseInstruction (Value (ts ! 0)), DIRECTIVE_INVALID, True, drop 1 ts)
      else if parseDirective (Value (ts ! 0)) \<noteq> DIRECTIVE_INVALID
      then (INSTRUCTION_INVALID, parseDirective (Value (ts ! 0)), True, drop 1 ts)
      else (INSTRUCTION_INVALID, DIRECTIVE_INVALID, False, []))"

definition assemble_statement ::
  "(string \<Rightarrow> 16 word list option) \<Rightarrow> InstructionType \<Rightarrow> DirectiveType \<Rightarrow> bool \<Rightarrow> Token
     \<Rightarrow> Token list \<Rightarrow> assembly \<Rightarrow> asm_panic + (control \<times> assembly)" where
  "assemble_statement unquote instruction directive has_keyword first operands st0 =
     (let st = (if \<not> has_keyword then add_err (UnknownIdentifierError (Value first)) st0
                else st0)
      in if directive = DIRECTIVE_END
         then Inr (BreakLoop,
                   if length operands \<noteq> 0
                   then add_err (InvalidNumArgumentsError 0 (length operands)) st else st)
         else
           (case assemble_directive unquote directive operands st of
              Inl p \<Rightarrow> Inl p
            | Inr st1 \<Rightarrow>
                (case encode_instruction instruction operands st1 of (scratch, st2) \<Rightarrow>
                   (case (if instruction \<noteq> INSTRUCTION_INVALID
                          then (case store_word scratch st2 of
                                  Inl p \<Rightarrow> Inl p
                                | Inr st3 \<Rightarrow> Inr (st3\<lparr>program := program st3 + 1\<rparr>))
                          else Inr st2) of
                      Inl p \<Rightarrow> Inl p
                    | Inr st4 \<Rightarrow>
                        if program st4 \<ge> 0xFFFF
                        then Inr (ReturnNow, add_err OversizedBinaryError st4)
                        else Inr (NextLine, st4)))))"

definition assemble_line ::
  "(string \<Rightarrow> 16 word list option) \<Rightarrow> Token list \<Rightarrow> assembly
     \<Rightarrow> asm_panic + (control \<times> assembly)" where
  "assemble_line unquote ts st =
     (case keyword_of ts of (instruction, directive, has_keyword, operands) \<Rightarrow>
        if has_keyword
        then assemble_statement unquote instruction directive True (ts ! 0) operands st
        else
          (let label = ts ! 0;
               st1 = (if labels st (Value label) = None
                      then st\<lparr>labels := (labels st)(Value label \<mapsto> ucast (program st))\<rparr>
                      else add_err (RedeclaredLabelError (Value label)) st)
           in if length ts = 1 then Inr (NextLine, st1)
              else (case keyword_of (drop 1 ts) of (instruction, directive, has_keyword, operands) \<Rightarrow>
                      assemble_statement unquote instruction directive has_keyword (ts ! 0)
                        operands st1)))"

subsection \<open>The passes after the line loop\<close>

text \<open>
  One iteration of the loop over \<open>labelRefs\<close>. \<open>limit\<close> and \<open>offset\<close> are \<open>int64\<close>, far
  from overflow: integers.
\<close>

definition resolve_labelRef :: "LabelRef \<Rightarrow> assembly \<Rightarrow> assembly" where
  "resolve_labelRef ref st =
     (case labels st (Label ref) of
        None \<Rightarrow> add_err (UnknownLabelError (Label ref)) st
      | Some addr \<Rightarrow>
          (let limit = push_bit (bits_of (Size ref) - 1) (1 :: int);
               offset = uint addr - uint (Addr ref) - 1
           in if offset < - limit \<or> offset \<ge> limit
              then add_err (OversizedLabelError limit offset) st
              else
                (let scratch = result st ! unat (Addr ref);
                     scratch' = scratch OR (word_of_int (offset AND 0xFFFF)
                                            AND (push_bit (bits_of (Size ref)) 1 - 1))
                 in st\<lparr>result := (result st)[unat (Addr ref) := scratch']\<rparr>)))"

definition resolve_fillRef :: "FillRef \<Rightarrow> assembly \<Rightarrow> assembly" where
  "resolve_fillRef ref st =
     (case labels st (FillLabel ref) of
        None \<Rightarrow> add_err (UnknownLabelError (FillLabel ref)) st
      | Some addr \<Rightarrow> st\<lparr>result := (result st)[unat (FillAddr ref) := addr]\<rparr>)"

definition resolve :: "assembly \<Rightarrow> assembly" where
  "resolve st =
     fold resolve_fillRef (fillRefs st) (fold resolve_labelRef (labelRefs st) st)"

subsection \<open>AssembleLC3Source\<close>

text \<open>
  The input is the list of lines that \<open>bufio.Scanner\<close> hands out. A line without tokens,
  or with lexical errors, is skipped after its errors have been recorded.
\<close>

fun assemble_lines ::
  "(string \<Rightarrow> 16 word list option) \<Rightarrow> string list \<Rightarrow> string \<Rightarrow> assembly
     \<Rightarrow> asm_panic + (16 word list \<times> asm_error list)" where
  "assemble_lines unquote [] b st = (let st' = resolve st in Inr (result st', errs st'))"
| "assemble_lines unquote (line # rest) b st =
     (let lx = lex_line b line;
          st1 = add_errs (lexErrs lx) st
      in if tokens lx = [] then assemble_lines unquote rest (builder lx) st1
         else if lexErrs lx \<noteq> [] then assemble_lines unquote rest (builder lx) st1
         else (case assemble_line unquote (tokens lx) st1 of
                 Inl p \<Rightarrow> Inl p
               | Inr (NextLine, st2) \<Rightarrow> assemble_lines unquote rest (builder lx) st2
               | Inr (BreakLoop, st2) \<Rightarrow>
                   (let st' = resolve st2 in Inr (result st', errs st'))
               | Inr (ReturnNow, st2) \<Rightarrow> Inr (result st2, errs st2)))"

definition AssembleLC3Source ::
  "(string \<Rightarrow> 16 word list option) \<Rightarrow> string list
     \<Rightarrow> asm_panic + (16 word list \<times> asm_error list)" where
  "AssembleLC3Source unquote input =
     assemble_lines unquote input []
       \<lparr>labels = Map.empty, labelRefs = [], fillRefs = [], program = 0,
        result = replicate (2 ^ 16) 0, errs = []\<rparr>"

text \<open>
  \<open>strconv.Unquote\<close> on a double-quoted string with no backslash, no inner quote and
  only ASCII characters returns what is between the quotes; this instance of the
  parameter gives an error for every other string.
\<close>

definition unquote_plain :: "string \<Rightarrow> 16 word list option" where
  "unquote_plain s =
     (if length s \<ge> 2 \<and> hd s = CHR 0x22 \<and> last s = CHR 0x22
         \<and> list_all (\<lambda>c. c \<noteq> CHR 0x22 \<and> c \<noteq> CHR 0x5C \<and> c \<noteq> CHR 0x0A
                          \<and> (of_char c :: nat) < 128) (butlast (tl s))
      then Some (map of_char (butlast (tl s)))
      else None)"

subsection \<open>Definitions used in the statements about the assembler\<close>






text \<open>
  The two lines of the source text \<open>.ORIG xFFFE\<close>, \<open>.STRINGZ "ab"\<close>; the double quote
  is character \<open>0x22\<close>.
\<close>

definition orig_line :: string where
  "orig_line = ''.ORIG xFFFE''"

definition quoted_ab :: string where
  "quoted_ab = [CHR 0x22, CHR ''a'', CHR ''b'', CHR 0x22]"

definition stringz_line :: string where
  "stringz_line = ''.STRINGZ '' @ quoted_ab"

section \<open>Properties of the encoding utilities\<close>

text \<open>
  C7. \<open>ZeroExtend\<close> is claimed to return the value masked to its low \<open>bitcount\<close> bits.
  The source ORs the value with \<open>0x0000 << bitcount\<close>, which changes nothing: at
  value \<open>0x1FF\<close> and bitcount 8 it returns \<open>0x1FF\<close>, where the mask
  \<open>(1 << 8) - 1\<close> would give \<open>0xFF\<close>.
\<close>

theorem ZeroExtend_keeps_high_bits:
  "ZeroExtend 0x1FF 8 = 0x1FF \<and> 0x1FF AND (push_bit 8 1 - 1) = (0xFF :: 16 word)"
  by (simp add: ZeroExtend_def)

section \<open>Properties of the virtual machine\<close>

lemmas step_defs =
  Step_def read_def machine_consts execute_def opcode_consts set_program_def
  set_register_def reg_def setFlags_def set_procstat_def keyboard_interrupt_def Let_def

lemmas exception_defs =
  getPrivilege_def getPriority_def raiseException_def push_def machine_write_def
  set_memory_def setPriority_def setPrivilege_def set_stack_def

text \<open>
  C1. From any machine that is in user mode at priority 4 with the condition bits clear
  (\<open>Procstat = 0x0400\<close>), with \<open>Program = 0x3000\<close>, \<open>R6 = 0xFE00\<close>,
  \<open>Stack = 0x2FFD\<close>, \<open>mem[0x0100] = 0x6000\<close> and \<open>mem[0x3000] = 0x8000\<close> (RTI), one
  step returns the machine with supervisor privilege at priority 4, \<open>Program = 0x6000\<close>,
  \<open>R6 = 0x2FFD\<close>, \<open>Stack = 0xFDFC\<close>, \<open>mem[0xFDFE] = 0x0400\<close> and \<open>mem[0xFDFC] = 0x3001\<close>;
  every other register, every other memory cell and the devices are as before.
\<close>

theorem rti_privilege_violation:
  assumes "Procstat (State mc) = 0x0400"
    and "Program (State mc) = 0x3000"
    and "Registers (State mc) 6 = 0xFE00"
    and "Stack (State mc) = 0x2FFD"
    and "Memory (State mc) 0x0100 = 0x6000"
    and "Memory (State mc) 0x3000 = 0x8000"
  shows "Step mc =
           Inr (mc\<lparr>State := (State mc)
                  \<lparr>Registers := (Registers (State mc))(6 := 0x2FFD),
                   Program := 0x6000,
                   Procstat := 0x8400,
                   Stack := 0xFDFC,
                   Memory := (Memory (State mc))(0xFDFE := 0x0400, 0xFDFC := 0x3001)\<rparr>\<rparr>)"
  using assms by (simp add: step_defs exception_defs split: option.splits)

theorem rti_privilege_violation_witness:
  "Step mc_user_rti =
     Inr \<lparr>Devices = None,
          State = \<lparr>Registers = (\<lambda>_. 0)(6 := 0x2FFD),
                   Program = 0x6000, Procstat = 0x8400, Stack = 0xFDFC,
                   Memory = (\<lambda>_. 0)(0x0100 := 0x6000, 0x3000 := 0x8000,
                                     0xFDFE := 0x0400, 0xFDFC := 0x3001)\<rparr>\<rparr>"
  using rti_privilege_violation [of mc_user_rti]
  by (simp add: mc_user_rti_def)

text \<open>
  C2. The claim has \<open>push\<close> decrement R6 by 1 and \<open>pop\<close> increment it by 1. The source
  moves R6 by 2: pushing onto the reset machine (\<open>R6 = 0x3000\<close>) does not give the
  machine with \<open>R6 = 0x2FFF\<close> and the value at \<open>mem[0x2FFF]\<close>.
\<close>

theorem push_by_one_counterexample:
  "push 0x1234 mc_reset \<noteq>
     Inr (set_memory (Registers (State mc_reset) 6 - 1) 0x1234
           (set_register 6 (Registers (State mc_reset) 6 - 1) mc_reset))"
  by (simp add: push_def mc_reset_def Reset_def machine_consts machine_write_def
      set_register_def set_memory_def fun_eq_iff)

text \<open>
  C2, as amended. For every machine and value, \<open>push\<close> decrements R6 by exactly 2 and
  then stores the value at \<open>mem[R6]\<close>, provided the new R6 is not the keyboard or
  display data register; \<open>pop\<close> reads \<open>mem[R6]\<close> and then increments R6 by exactly 2,
  provided R6 is not one of the device registers KBSR, DSR, DDR. Nothing else changes.
\<close>

theorem push_pop_by_two:
  "(Registers (State mc) 6 - 2 \<noteq> DEV_KBDR \<and> Registers (State mc) 6 - 2 \<noteq> DEV_DDR \<longrightarrow>
      push v mc = Inr (set_memory (Registers (State mc) 6 - 2) v
                        (set_register 6 (Registers (State mc) 6 - 2) mc)))
   \<and> (Registers (State mc) 6 \<noteq> DEV_KBSR \<and> Registers (State mc) 6 \<noteq> DEV_DSR
        \<and> Registers (State mc) 6 \<noteq> DEV_DDR \<longrightarrow>
      pop mc = Inr (Memory (State mc) (Registers (State mc) 6),
                    set_register 6 (Registers (State mc) 6 + 2) mc))"
  by (simp add: push_def pop_def machine_write_def read_def set_register_def set_memory_def)

theorem push_pop_by_two_witness:
  "push 0x1234 mc_reset = Inr (set_memory 0x2FFE 0x1234 (set_register 6 0x2FFE mc_reset))
   \<and> pop mc_reset = Inr (0, set_register 6 0x3002 mc_reset)"
  using push_pop_by_two [of mc_reset "0x1234"]
  by (simp add: mc_reset_def Reset_def machine_consts set_register_def set_memory_def)

text \<open>
  C3. The register form of AND is claimed to use the register named by bits 2..0 of the
  instruction as its second source. The source masks the field with \<open>0x3\<close>:
  \<open>AND R0, R1, R4\<close> with \<open>R0 = 0x000F\<close>, \<open>R1 = 0x00FF\<close>, \<open>R4 = 0x00F0\<close> leaves
  \<open>R1 & R0 = 0x000F\<close> in R0, not \<open>R1 & R4 = 0x00F0\<close>.
\<close>

theorem and_register_form_masks_two_bits:
  "Step mc_and_r4 =
     Inr (mc_and_r4\<lparr>State := (State mc_and_r4)
            \<lparr>Registers := (Registers (State mc_and_r4))(0 := 0x000F),
             Program := 0x3001, Procstat := 0x8001\<rparr>\<rparr>)
   \<and> Registers (State mc_and_r4) 1 AND Registers (State mc_and_r4) 4 = 0x00F0"
  by (simp add: step_defs mc_and_r4_def)

subsection \<open>Device registers without devices\<close>










subsection \<open>Condition bits\<close>

lemma seven_mask: "(0x7::16 word) = mask 3"
  by (simp add: mask_eq_exp_minus_1)

lemma push8_and7: "push_bit 8 (x::16 word) AND 0x7 = 0"
  unfolding seven_mask by (rule bit_word_eqI) (auto simp: bit_simps)

lemma flag_and7:
  "((p AND - 8) OR 1) AND 0x7 = (1::16 word)"
  "((p AND - 8) OR 2) AND 0x7 = (2::16 word)"
  "((p AND - 8) OR 4) AND 0x7 = (4::16 word)"
  by (simp_all add: word_ao_dist word_bw_assocs)

lemma prio_and7:
  "((p AND - 1793) OR push_bit 8 x) AND 0x7 = p AND (0x7::16 word)"
  by (simp add: word_ao_dist push8_and7 word_bw_assocs)

lemma priv_and7:
  "(p OR 32768) AND 0x7 = p AND (0x7::16 word)"
  "(p AND - 32769) AND 0x7 = p AND (0x7::16 word)"
  by (simp_all add: word_ao_dist word_bw_assocs)

lemma top_bit: "drop_bit 15 (v::16 word) = 1 \<longleftrightarrow> bit v 15"
proof
  assume "drop_bit 15 v = 1"
  then have "bit (drop_bit 15 v) 0" by simp
  then show "bit v 15" by (simp add: bit_drop_bit_eq)
next
  assume b: "bit v 15"
  show "drop_bit 15 v = 1"
    by (rule bit_word_eqI) (use b in \<open>auto simp: bit_simps dest: bit_imp_le_length\<close>)
qed

lemma read_Procstat: "read a mc = Inr (v, mc') \<Longrightarrow> Procstat (State mc') = Procstat (State mc)"
  by (auto simp: read_def read_kbsr_def read_dsr_def set_memory_def set_keyboard_def
      split: option.splits if_splits list.splits)

lemma write_Procstat: "machine_write a v mc = Inr mc' \<Longrightarrow> Procstat (State mc') = Procstat (State mc)"
  by (auto simp: machine_write_def write_ddr_def set_memory_def set_display_def
      split: option.splits if_splits)

lemma push_Procstat: "push v mc = Inr mc' \<Longrightarrow> Procstat (State mc') = Procstat (State mc)"
  by (auto simp: push_def Let_def set_register_def dest!: write_Procstat)

lemma setPrivilege_cond:
  "Procstat (State (setPrivilege b mc)) AND 0x7 = Procstat (State mc) AND 0x7"
  by (simp add: setPrivilege_def Let_def set_procstat_def set_stack_def set_register_def priv_and7)

lemma setPriority_cond:
  "setPriority v mc = Inr mc' \<Longrightarrow> Procstat (State mc') AND 0x7 = Procstat (State mc) AND 0x7"
  by (auto simp: setPriority_def Let_def set_procstat_def prio_and7 split: if_splits)

lemma raiseException_cond:
  assumes "raiseException vec pr mc = Inr mc'"
  shows "Procstat (State mc') AND 0x7 = Procstat (State mc) AND 0x7"
proof -
  from assms obtain mc1 mc2 mc3 target mc4 where
    1: "push (Procstat (State mc)) mc = Inr mc1"
    and 2: "push (Program (State mc1)) mc1 = Inr mc2"
    and 3: "setPriority pr mc2 = Inr mc3"
    and 4: "read (MEMSPACE_INT_TABLE OR ucast vec) (setPrivilege True mc3) = Inr (target, mc4)"
    and 5: "mc' = set_program target mc4"
    by (auto simp: raiseException_def split: sum.splits prod.splits)
  have "Procstat (State mc') = Procstat (State (setPrivilege True mc3))"
    using read_Procstat[OF 4] 5 by (simp add: set_program_def)
  then show ?thesis
    using push_Procstat[OF 1] push_Procstat[OF 2] setPriority_cond[OF 3]
    by (simp add: setPrivilege_cond)
qed

lemma keyboard_interrupt_cond:
  "keyboard_interrupt mc = Inr mc' \<Longrightarrow> Procstat (State mc') AND 0x7 = Procstat (State mc) AND 0x7"
  by (auto simp: keyboard_interrupt_def split: option.splits if_splits dest: raiseException_cond)

lemma setFlags_cond:
  "Procstat (State (setFlags v mc)) AND 0x7 = condition_of v"
  by (simp add: setFlags_def Let_def set_procstat_def condition_of_def machine_consts flag_and7 top_bit)

lemma setFlags_reg: "reg (setFlags v mc) i = reg mc i"
  by (simp add: setFlags_def Let_def set_procstat_def reg_def)

lemma load_into_cond:
  "load_into dest r = Inr mc2 \<Longrightarrow> Procstat (State mc2) AND 0x7 = condition_of (reg mc2 dest)"
  by (auto simp: load_into_def Let_def setFlags_cond setFlags_reg split: sum.splits prod.splits)

lemma execute_sets_flags:
  assumes "sets_flags (drop_bit 12 instruction)" and "execute instruction mc = Inr mc2"
  shows "Procstat (State mc2) AND 0x7 = condition_of (reg mc2 (drop_bit 9 instruction AND 0x7))"
  using assms
  by (auto simp: sets_flags_def execute_def opcode_consts Let_def setFlags_cond setFlags_reg
      dest: load_into_cond split: if_splits)


lemma pop_Procstat: "pop mc = Inr (v, mc') \<Longrightarrow> Procstat (State mc') = Procstat (State mc)"
  by (auto simp: pop_def set_register_def split: sum.splits prod.splits dest!: read_Procstat)

lemma execute_keeps_flags:
  assumes "\<not> sets_flags (drop_bit 12 instruction)"
    and "\<not> (drop_bit 12 instruction = OP_RTI \<and> getPrivilege mc)"
    and "execute instruction mc = Inr mc2"
  shows "Procstat (State mc2) AND 0x7 = Procstat (State mc) AND 0x7"
  using assms
  by (auto simp: sets_flags_def execute_def opcode_consts Let_def set_program_def
        set_register_def reg_def setPrivilege_cond
      dest!: raiseException_cond write_Procstat read_Procstat
      split: if_splits sum.splits prod.splits)

text \<open>
  C4, as amended. Take a step that returns: the fetch yields \<open>instruction\<close>, the opcode
  switch yields \<open>mc2\<close>, the interrupt check yields \<open>mc'\<close>. If the opcode is ADD, AND,
  NOT, LD, LDI, LDR or LEA, the condition bits of \<open>mc'\<close> are exactly the one bit that
  stands for the value loaded into the destination register (N if its bit 15 is set, Z
  if it is zero, P otherwise). If the opcode is any other, and the step is not an RTI
  executed in supervisor mode, the condition bits are those before the step.
\<close>

theorem step_condition_bits:
  assumes "read (Program (State mc)) mc = Inr (instruction, mc1)"
    and "execute instruction (set_program (Program (State mc1) + 1) mc1) = Inr mc2"
    and "keyboard_interrupt mc2 = Inr mc'"
  shows "Step mc = Inr mc'
     \<and> (sets_flags (drop_bit 12 instruction) \<longrightarrow>
          Procstat (State mc') AND 0x7 = condition_of (reg mc2 (drop_bit 9 instruction AND 0x7))
          \<and> Procstat (State mc') AND 0x7 \<in> {FLAG_NEG, FLAG_ZERO, FLAG_POS})
     \<and> (\<not> sets_flags (drop_bit 12 instruction)
          \<and> \<not> (drop_bit 12 instruction = OP_RTI \<and> getPrivilege mc) \<longrightarrow>
          Procstat (State mc') AND 0x7 = Procstat (State mc) AND 0x7)"
proof (intro conjI impI)
  show "Step mc = Inr mc'"
    using assms by (simp add: Step_def)
next
  assume f: "sets_flags (drop_bit 12 instruction)"
  show c: "Procstat (State mc') AND 0x7 = condition_of (reg mc2 (drop_bit 9 instruction AND 0x7))"
    using execute_sets_flags[OF f assms(2)] keyboard_interrupt_cond[OF assms(3)] by simp
  show "Procstat (State mc') AND 0x7 \<in> {FLAG_NEG, FLAG_ZERO, FLAG_POS}"
    unfolding c by (simp add: condition_of_def)
next
  assume n: "\<not> sets_flags (drop_bit 12 instruction)
          \<and> \<not> (drop_bit 12 instruction = OP_RTI \<and> getPrivilege mc)"
  have p: "getPrivilege (set_program (Program (State mc1) + 1) mc1) = getPrivilege mc"
    using read_Procstat[OF assms(1)] by (simp add: getPrivilege_def set_program_def)
  have "Procstat (State mc2) AND 0x7
          = Procstat (State (set_program (Program (State mc1) + 1) mc1)) AND 0x7"
    using n p by (intro execute_keeps_flags[OF _ _ assms(2)]) simp_all
  then show "Procstat (State mc') AND 0x7 = Procstat (State mc) AND 0x7"
    using read_Procstat[OF assms(1)] keyboard_interrupt_cond[OF assms(3)]
    by (simp add: set_program_def)
qed

theorem step_condition_bits_witness:
  "Step mc_add = Inr mc_add_after
   \<and> Procstat (State mc_add_after) AND 0x7 = FLAG_NEG
   \<and> Step mc_user_rti = Inr mc_user_rti_after
   \<and> Procstat (State mc_user_rti_after) AND 0x7 = Procstat (State mc_user_rti) AND 0x7"
proof -
  have a1: "read (Program (State mc_add)) mc_add = Inr (0x1042, mc_add)"
    by (simp add: mc_add_def read_def machine_consts)
  have a2: "execute 0x1042 (set_program (Program (State mc_add) + 1) mc_add) = Inr mc_add_after"
    by (simp add: mc_add_def mc_add_after_def step_defs)
  have a3: "keyboard_interrupt mc_add_after = Inr mc_add_after"
    by (simp add: mc_add_def mc_add_after_def keyboard_interrupt_def)
  have b1: "read (Program (State mc_user_rti)) mc_user_rti = Inr (0x8000, mc_user_rti)"
    by (simp add: mc_user_rti_def read_def machine_consts)
  have b2: "execute 0x8000 (set_program (Program (State mc_user_rti) + 1) mc_user_rti)
              = Inr mc_user_rti_after"
    by (simp add: mc_user_rti_def mc_user_rti_after_def step_defs exception_defs)
  have b3: "keyboard_interrupt mc_user_rti_after = Inr mc_user_rti_after"
    by (simp add: mc_user_rti_def mc_user_rti_after_def keyboard_interrupt_def)
  have b4: "\<not> getPrivilege mc_user_rti"
    by (simp add: mc_user_rti_def getPrivilege_def)
  show ?thesis
    using step_condition_bits [OF a1 a2 a3] step_condition_bits [OF b1 b2 b3] b4
    by (simp add: sets_flags_def opcode_consts condition_of_def mc_add_after_def reg_def
        machine_consts)
qed

text \<open>
  C4, as claimed, has every opcode outside that list leave the condition bits alone. RTI
  in supervisor mode pops the saved status word into \<open>Procstat\<close>: here the condition
  bits go from none set to Z.
\<close>

theorem rti_restores_condition_bits_counterexample:
  "Step mc_super_rti = Inr mc_super_rti_after
   \<and> drop_bit 12 (Memory (State mc_super_rti) (Program (State mc_super_rti))) = OP_RTI
   \<and> \<not> sets_flags OP_RTI
   \<and> Procstat (State mc_super_rti) AND 0x7 = 0
   \<and> Procstat (State mc_super_rti_after) AND 0x7 = FLAG_ZERO"
  by (simp add: mc_super_rti_def mc_super_rti_after_def step_defs exception_defs pop_def
      sets_flags_def)

subsection \<open>Loading a binary image\<close>

declare LoadBin_loop.simps [simp del]

lemma LoadBin_loop_full:
  assumes "2 * (65535 - index) \<le> length bs" and "index \<le> 65535"
  shows "fst (LoadBin_loop index bs mc) = None
     \<and> (\<forall>j. index \<le> j \<and> j < 65535 \<longrightarrow>
           Memory (State (snd (LoadBin_loop index bs mc))) (of_nat j) = stream_word bs (j - index))
     \<and> (\<forall>a. unat a < index \<or> unat a = 65535 \<longrightarrow>
           Memory (State (snd (LoadBin_loop index bs mc))) a = Memory (State mc) a)
     \<and> Devices (snd (LoadBin_loop index bs mc)) = Devices mc"
  using assms
proof (induction "65535 - index" arbitrary: index bs mc)
  case 0
  then have "index = 65535" by simp
  then show ?case by (auto simp: LoadBin_loop.simps)
next
  case (Suc n)
  then have lt: "index < 65535" by simp
  with Suc.prems obtain b0 b1 rest where bs: "bs = b0 # b1 # rest"
    by (cases bs rule: list.exhaust; cases "tl bs") auto
  let ?mc = "set_memory (of_nat index) (BigEndian_Uint16 b0 b1) mc"
  have step: "LoadBin_loop index bs mc = LoadBin_loop (index + 1) rest ?mc"
    using lt by (subst LoadBin_loop.simps) (simp add: bs)
  have ih: "fst (LoadBin_loop (index + 1) rest ?mc) = None
     \<and> (\<forall>j. index + 1 \<le> j \<and> j < 65535 \<longrightarrow>
           Memory (State (snd (LoadBin_loop (index + 1) rest ?mc))) (of_nat j)
             = stream_word rest (j - (index + 1)))
     \<and> (\<forall>a. unat a < index + 1 \<or> unat a = 65535 \<longrightarrow>
           Memory (State (snd (LoadBin_loop (index + 1) rest ?mc))) a = Memory (State ?mc) a)
     \<and> Devices (snd (LoadBin_loop (index + 1) rest ?mc)) = Devices ?mc"
    using Suc.hyps(2) Suc.prems lt by (intro Suc.hyps(1)) (auto simp: bs)
  have idx: "unat (of_nat index :: 16 word) = index"
    using lt by (simp add: unat_of_nat)
  show ?case
    unfolding step
  proof (intro conjI allI impI)
    show "fst (LoadBin_loop (index + 1) rest ?mc) = None" using ih by simp
  next
    fix j assume j: "index \<le> j \<and> j < 65535"
    show "Memory (State (snd (LoadBin_loop (index + 1) rest ?mc))) (of_nat j)
            = stream_word bs (j - index)"
    proof (cases "j = index")
      case True
      have "Memory (State (snd (LoadBin_loop (index + 1) rest ?mc))) (of_nat index)
              = Memory (State ?mc) (of_nat index)"
        using ih idx by simp
      then show ?thesis
        using True by (simp add: set_memory_def stream_word_def bs)
    next
      case False
      then have "index + 1 \<le> j \<and> j < 65535" using j by simp
      then have "Memory (State (snd (LoadBin_loop (index + 1) rest ?mc))) (of_nat j)
              = stream_word rest (j - (index + 1))" using ih by blast
      moreover have "stream_word rest (j - (index + 1)) = stream_word bs (j - index)"
      proof -
        obtain k where k: "j - index = Suc k" using False j by (cases "j - index") auto
        then have "j - (index + 1) = k" by simp
        then show ?thesis by (simp add: k stream_word_def bs)
      qed
      ultimately show ?thesis by simp
    qed
  next
    fix a :: "16 word" assume a: "unat a < index \<or> unat a = 65535"
    then have ne: "a \<noteq> of_nat index" using idx lt by auto
    have "Memory (State (snd (LoadBin_loop (index + 1) rest ?mc))) a = Memory (State ?mc) a"
      using ih a by auto
    then show "Memory (State (snd (LoadBin_loop (index + 1) rest ?mc))) a = Memory (State mc) a"
      using ne by (simp add: set_memory_def)
  next
    show "Devices (snd (LoadBin_loop (index + 1) rest ?mc)) = Devices mc"
      using ih by (simp add: set_memory_def)
  qed
qed

text \<open>
  C9. Loading an image of exactly 131 072 octets is claimed to store word \<open>i\<close> at address
  \<open>i\<close> for every \<open>i\<close> up to 65 535. The loop runs while \<open>index < (1 << 16) - 1\<close>: it
  returns nil and stores words 0 to 65 534, and address \<open>0xFFFF\<close> keeps the 0 that
  \<open>Reset\<close> put there, whatever the last word of the stream is.
\<close>

theorem LoadBin_drops_last_word:
  assumes "length bs = 131072"
  shows "fst (LoadBin bs mc) = None
     \<and> (\<forall>i < 65535. Memory (State (snd (LoadBin bs mc))) (of_nat i) = stream_word bs i)
     \<and> Memory (State (snd (LoadBin bs mc))) 0xFFFF = 0"
  using assms LoadBin_loop_full [of 0 bs "mc\<lparr>State := Reset (State mc)\<rparr>"]
  by (simp add: LoadBin_def Reset_def)

theorem LoadBin_drops_last_word_witness:
  "length image_one_at_top = 131072
   \<and> stream_word image_one_at_top 65535 = 1
   \<and> fst (LoadBin image_one_at_top mc_reset) = None
   \<and> Memory (State (snd (LoadBin image_one_at_top mc_reset))) 0xFFFF = 0"
  using LoadBin_drops_last_word [of image_one_at_top mc_reset]
  by (simp add: image_one_at_top_def stream_word_def nth_append BigEndian_Uint16_def)

section \<open>Properties of the assembler\<close>

subsection \<open>Literal operands\<close>

lemmas literal_defs =
  parseLiteral_def DecodeHex_def DecodeInt_def ParseInt_def ParseUint_def digit_value_def
  lower_def








subsection \<open>Resolution of label references\<close>






subsection \<open>Writes into the image\<close>

lemmas lexer_defs =
  lex_line_def lex_char_def lex_switch_def IsSpace_def IsDigit_def IsLetter_def MaxASCII_def
  Let_def

lemmas keyword_defs =
  keyword_of_def parseInstruction_def parseDirective_def EqualFold_def upper_def

lemma lex_orig_line:
  "lex_line [] orig_line =
     \<lparr>tokenType = TOKEN_NONE, builder = [],
      tokens = [\<lparr>Type = TOKEN_DIRECTIVE, Value = ''.ORIG''\<rparr>,
                \<lparr>Type = TOKEN_LITERAL, Value = ''xFFFE''\<rparr>],
      lexErrs = []\<rparr>"
  by (simp add: orig_line_def lexer_defs)

lemma lex_stringz_line:
  "lex_line [] stringz_line =
     \<lparr>tokenType = TOKEN_NONE, builder = [],
      tokens = [\<lparr>Type = TOKEN_DIRECTIVE, Value = ''.STRINGZ''\<rparr>,
                \<lparr>Type = TOKEN_STRING, Value = quoted_ab\<rparr>],
      lexErrs = []\<rparr>"
  by (simp add: stringz_line_def quoted_ab_def lexer_defs)

lemma keyword_orig:
  "keyword_of [\<lparr>Type = TOKEN_DIRECTIVE, Value = ''.ORIG''\<rparr>, t]
     = (INSTRUCTION_INVALID, DIRECTIVE_ORIG, True, [t])"
  by (simp add: keyword_defs)

lemma keyword_stringz:
  "keyword_of [\<lparr>Type = TOKEN_DIRECTIVE, Value = ''.STRINGZ''\<rparr>, t]
     = (INSTRUCTION_INVALID, DIRECTIVE_STRINGZ, True, [t])"
  by (simp add: keyword_defs)

lemma literal_xFFFE:
  "parseLiteral \<lparr>Type = TOKEN_LITERAL, Value = ''xFFFE''\<rparr> LITERAL_WORD = Inr 0xFFFE"
  by (simp add: literal_defs)

lemma assemble_orig:
  "assemble_line unquote
     [\<lparr>Type = TOKEN_DIRECTIVE, Value = ''.ORIG''\<rparr>, \<lparr>Type = TOKEN_LITERAL, Value = ''xFFFE''\<rparr>] st
   = Inr (NextLine, st\<lparr>program := 0xFFFE\<rparr>)"
  by (simp add: assemble_line_def keyword_orig assemble_statement_def assemble_directive_def
      literal_of_def literal_xFFFE encode_instruction_def Let_def)

lemma assemble_stringz:
  assumes "unquote quoted_ab = Some [0x61, 0x62]"
    and "program st = 0xFFFE" and "length (result st) = 65536"
  shows "assemble_line unquote
     [\<lparr>Type = TOKEN_DIRECTIVE, Value = ''.STRINGZ''\<rparr>, \<lparr>Type = TOKEN_STRING, Value = quoted_ab\<rparr>] st
   = Inl IndexOutOfRange"
  using assms
  by (simp add: assemble_line_def keyword_stringz assemble_statement_def assemble_directive_def
      store_word_def Let_def)

text \<open>
  C8. The claim has every write into the image stay in bounds, with \<open>OversizedBinary\<close>
  ending the run once the program cursor reaches \<open>0xFFFF\<close>. The cursor is only checked
  at the end of a line, and \<open>.STRINGZ\<close> writes several words within one: after
  \<open>.ORIG xFFFE\<close> the line \<open>.STRINGZ "ab"\<close> stores at \<open>0xFFFE\<close> and \<open>0xFFFF\<close> and then
  indexes the 65 536-word image at \<open>0x10000\<close>, which panics: no image and no error list
  are returned. This holds for every \<open>unquote\<close> that returns \<open>ab\<close> for \<open>"ab"\<close>, as
  \<open>strconv.Unquote\<close> does.
\<close>

theorem stringz_past_end_panics:
  assumes "unquote quoted_ab = Some [0x61, 0x62]"
  shows "AssembleLC3Source unquote [orig_line, stringz_line] = Inl IndexOutOfRange"
  using assms
  by (simp add: AssembleLC3Source_def lex_orig_line lex_stringz_line add_errs_def
      assemble_orig assemble_stringz)

theorem stringz_past_end_panics_witness:
  "AssembleLC3Source unquote_plain [orig_line, stringz_line] = Inl IndexOutOfRange"
  using stringz_past_end_panics [of unquote_plain]
  by (simp add: unquote_plain_def quoted_ab_def)

end
